theory Spec2Isabelle
  imports Main
begin

section \<open>Scoring engine (game-server/server.js, lines 520-524 and 1295-1312)\<close>

text \<open>
  \<^verbatim>\<open>const SCORE_TABLE = { 3: 1, 4: 1, 5: 2, 6: 3, 7: 5 };\<close>
  \<^verbatim>\<open>function getWordScore(len) { return len >= 8 ? 11 : (SCORE_TABLE[len] || 0); }\<close>
\<close>

definition SCORE_TABLE :: "nat \<rightharpoonup> int" where
  "SCORE_TABLE = [3 \<mapsto> 1, 4 \<mapsto> 1, 5 \<mapsto> 2, 6 \<mapsto> 3, 7 \<mapsto> 5]"

definition getWordScore :: "nat \<Rightarrow> int" where
  "getWordScore len =
     (if len \<ge> 8 then 11 else (case SCORE_TABLE len of None \<Rightarrow> 0 | Some v \<Rightarrow> v))"

text \<open>
  A JavaScript \<open>Set\<close> built from an array keeps the first occurrence of every element,
  in insertion order. \<open>setAdd\<close> is \<open>Set.prototype.add\<close>, \<open>newSet\<close> is
  \<^verbatim>\<open>[...new Set(xs)]\<close>.
\<close>

definition setAdd :: "'a list \<Rightarrow> 'a \<Rightarrow> 'a list" where
  "setAdd acc x = (if x \<in> set acc then acc else acc @ [x])"

definition newSet :: "'a list \<Rightarrow> 'a list" where
  "newSet xs = foldl setAdd [] xs"

record scoredWord =
  word :: string
  points :: int
  shared :: bool

record results =
  r_words :: "scoredWord list"
  score :: int
  wordCount :: nat

text \<open>
  The comparator of the final sort,
  \<^verbatim>\<open>(a, b) => b.word.length - a.word.length || a.word.localeCompare(b.word)\<close>.
  \<open>String.prototype.localeCompare\<close> belongs to the JavaScript runtime (its collation
  depends on the locale data) and not to the repository: it is the parameter \<open>cmp\<close>.
\<close>

definition compareScored :: "(string \<Rightarrow> string \<Rightarrow> int) \<Rightarrow> scoredWord \<Rightarrow> scoredWord \<Rightarrow> int" where
  "compareScored cmp a b =
     (let d = int (length (word b)) - int (length (word a))
      in if d \<noteq> 0 then d else cmp (word a) (word b))"

text \<open>\<open>Array.prototype.sort\<close> is stable: an insertion sort that keeps equal elements in order.\<close>

fun insertScored :: "(string \<Rightarrow> string \<Rightarrow> int) \<Rightarrow> scoredWord \<Rightarrow> scoredWord list \<Rightarrow> scoredWord list" where
  "insertScored cmp a [] = [a]"
| "insertScored cmp a (b # bs) =
     (if compareScored cmp a b \<le> 0 then a # b # bs else b # insertScored cmp a bs)"

definition sortScored :: "(string \<Rightarrow> string \<Rightarrow> int) \<Rightarrow> scoredWord list \<Rightarrow> scoredWord list" where
  "sortScored cmp xs = foldr (insertScored cmp) xs []"

definition scoreWord :: "string list \<Rightarrow> string \<Rightarrow> scoredWord" where
  "scoreWord sharedWords w =
     (let isShared = (w \<in> set sharedWords);
          pts = (if isShared then 0 else getWordScore (length w))
      in \<lparr>word = w, points = pts, shared = isShared\<rparr>)"

definition calculateResults :: "(string \<Rightarrow> string \<Rightarrow> int) \<Rightarrow> string list \<Rightarrow> string list \<Rightarrow> results" where
  "calculateResults cmp wds sharedWords =
     (let scoredWords = map (scoreWord sharedWords) wds
      in \<lparr>r_words = sortScored cmp scoredWords,
          score = foldl (\<lambda>acc sw. acc + points sw) 0 scoredWords,
          wordCount = length wds\<rparr>)"

text \<open>
  The shared words of \<open>finishGame\<close>:
  \<^verbatim>\<open>new Set(p1Words.filter(w => p2Words.includes(w)))\<close>.
\<close>

definition sharedWordsOf :: "string list \<Rightarrow> string list \<Rightarrow> string list" where
  "sharedWordsOf p1Words p2Words = newSet (filter (\<lambda>w. w \<in> set p2Words) p1Words)"


section \<open>Item counts: JavaScript numbers\<close>

text \<open>
  An item count is a JavaScript number, a double. The model covers the numbers that the
  wager map of the specification (integer counts) and the arithmetic of the server on
  them can produce: the doubles with an integer value (\<open>Fin\<close>), the two infinities and
  \<open>NaN\<close>. The server validates no count that a client sends. A key that is absent from
  a wager or an inventory object is read only through \<^verbatim>\<open>x > 0\<close> and \<^verbatim>\<open>x || 0\<close>, where
  \<open>undefined\<close> behaves as \<open>0\<close>: it is the count \<open>Fin 0\<close>.
\<close>

datatype jsnum = Fin int | PInf | NInf | NaN

text \<open>
  A double has 53 binary digits. For an integer \<open>a\<close> beyond \<open>2 ^ 53\<close>, the spacing of the
  doubles around \<open>a\<close> is the least power of two \<open>u\<close> with \<open>a < 2 ^ 53 * u\<close>: \<open>ulp a 1\<close>.
\<close>

function ulp :: "int \<Rightarrow> int \<Rightarrow> int" where
  "ulp a u = (if u \<le> 0 \<or> a < 2 ^ 53 * u then u else ulp a (2 * u))"
  by pat_completeness auto
termination
  by (relation "measure (\<lambda>(a, u). nat (a - u))") auto

declare ulp.simps [simp del]

text \<open>
  Rounding an integer to the nearest double (ties to the even multiple): integers of
  magnitude up to \<open>2 ^ 53\<close> are doubles; beyond, the low digits are rounded away.
\<close>

definition roundDouble :: "int \<Rightarrow> int" where
  "roundDouble x =
     (let a = \<bar>x\<bar> in
      if a \<le> 2 ^ 53 then x
      else
        (let u = ulp a 1;
             q = a div u;
             r = a mod u;
             q' = (if 2 * r < u then q
                   else if u < 2 * r then q + 1
                   else if even q then q else q + 1)
         in sgn x * (q' * u)))"

text \<open>The double for an exact integer result: a magnitude of \<open>2 ^ 1024\<close> overflows.\<close>

definition jsOfInt :: "int \<Rightarrow> jsnum" where
  "jsOfInt x =
     (let y = roundDouble x in
      if 2 ^ 1024 \<le> y then PInf else if y \<le> - (2 ^ 1024) then NInf else Fin y)"

text \<open>\<open>a + b\<close> on numbers.\<close>

fun jsAdd :: "jsnum \<Rightarrow> jsnum \<Rightarrow> jsnum" where
  "jsAdd (Fin a) (Fin b) = jsOfInt (a + b)"
| "jsAdd (Fin a) PInf = PInf"
| "jsAdd (Fin a) NInf = NInf"
| "jsAdd PInf (Fin b) = PInf"
| "jsAdd PInf PInf = PInf"
| "jsAdd NInf (Fin b) = NInf"
| "jsAdd NInf NInf = NInf"
| "jsAdd PInf NInf = NaN"
| "jsAdd NInf PInf = NaN"
| "jsAdd NaN y = NaN"
| "jsAdd x NaN = NaN"

fun jsNeg :: "jsnum \<Rightarrow> jsnum" where
  "jsNeg (Fin a) = Fin (- a)"
| "jsNeg PInf = NInf"
| "jsNeg NInf = PInf"
| "jsNeg NaN = NaN"

text \<open>\<open>a - b\<close> on numbers.\<close>

definition jsSub :: "jsnum \<Rightarrow> jsnum \<Rightarrow> jsnum" where
  "jsSub x y = jsAdd x (jsNeg y)"

text \<open>\<^verbatim>\<open>x > 0\<close>\<close>

fun gt0 :: "jsnum \<Rightarrow> bool" where
  "gt0 (Fin a) = (0 < a)"
| "gt0 PInf = True"
| "gt0 NInf = False"
| "gt0 NaN = False"

text \<open>\<^verbatim>\<open>x || 0\<close>: the falsy numbers are \<open>0\<close> and \<open>NaN\<close>.\<close>

fun orZero :: "jsnum \<Rightarrow> jsnum" where
  "orZero NaN = Fin 0"
| "orZero x = x"

text \<open>\<^verbatim>\<open>Math.max(0, x)\<close>\<close>

fun max0 :: "jsnum \<Rightarrow> jsnum" where
  "max0 (Fin a) = Fin (max 0 a)"
| "max0 PInf = PInf"
| "max0 NInf = Fin 0"
| "max0 NaN = NaN"


section \<open>Data model of the match server (game-server/server.js)\<close>

text \<open>
  The model covers the match engine of the server: the two queues, the games, the wagers
  and their settlement, the timers, and the disconnect and reconnect handling. Logging,
  the writing of the accounts to a file (\<open>saveItemsData\<close>), the leaderboard and the login
  handlers are left out; none of them is read by the functions modelled here. A string is
  the list of its characters. The time stamps are integers far below \<open>2 ^ 53\<close>, where the
  arithmetic of the doubles is exact: they are of type \<open>int\<close>.
\<close>

datatype item = silver_coin | gold_coin | opal | amethyst | moonstone | ruby | sapphire
  | diamond | faded_page | cursed_amulet

definition ITEM_ORDER :: "item list" where
  "ITEM_ORDER = [silver_coin, gold_coin, opal, amethyst, moonstone, ruby, sapphire, diamond,
     faded_page, cursed_amulet]"

text \<open>
  A wager object and an inventory object are read by the server only at the ten item
  kinds: both are functions from the item kind to a count. The server checks neither the
  sign nor the size of a count that a client sends.
\<close>

type_synonym wagerMap = "item \<Rightarrow> jsnum"
type_synonym inventory = "item \<Rightarrow> jsnum"

text \<open>The map with the integer counts \<open>h\<close>.\<close>

definition counts :: "(item \<Rightarrow> int) \<Rightarrow> wagerMap" where
  "counts h = (\<lambda>it. Fin (h it))"

text \<open>
  \<open>JSON.parse\<close> reads every number of a message as the nearest double. A wager as a client
  writes it, with integer counts of any size, and the wager object that the handlers get:
\<close>

type_synonym jsonWager = "item \<Rightarrow> int"

definition parseWager :: "jsonWager \<Rightarrow> wagerMap" where
  "parseWager j = (\<lambda>it. jsOfInt (j it))"

text \<open>
  \<open>getPlayerData(name)\<close> is \<^verbatim>\<open>itemsData.players[name] || null\<close>, a property read on a
  plain object. It yields \<open>null\<close> (\<open>NoAccount\<close>), the account stored under the name, of
  which the model keeps the inventory (\<open>Account\<close>), or, for a name such as
  \<open>constructor\<close>, \<open>toString\<close> or \<open>__proto__\<close> that has no account, the property that the
  object inherits from \<open>Object.prototype\<close> (\<open>Inherited\<close>): a truthy value whose
  \<open>inventory\<close> is \<open>undefined\<close>. \<open>itemsData\<close> gives the result of the read for every
  name.
\<close>

datatype lookup = NoAccount | Account inventory | Inherited

type_synonym accounts = "string \<Rightarrow> lookup"

text \<open>The names of the properties of \<open>Object.prototype\<close>.\<close>

definition objectPrototypeKeys :: "string list" where
  "objectPrototypeKeys = [''constructor'', ''__defineGetter__'', ''__defineSetter__'',
     ''hasOwnProperty'', ''__lookupGetter__'', ''__lookupSetter__'', ''isPrototypeOf'',
     ''propertyIsEnumerable'', ''toString'', ''valueOf'', ''__proto__'', ''toLocaleString'']"

text \<open>
  A function of the server either returns or throws (a \<open>TypeError\<close>, on a property read
  of \<open>undefined\<close>). Both carry the state that the function leaves behind: what it has
  assigned before a throw stays assigned.
\<close>

datatype 'a outcome = Done 'a | Threw 'a

fun stateOf :: "'a outcome \<Rightarrow> 'a" where
  "stateOf (Done a) = a"
| "stateOf (Threw a) = a"

fun isDone :: "'a outcome \<Rightarrow> bool" where
  "isDone (Done a) = True"
| "isDone (Threw a) = False"

text \<open>Sequencing: what follows a throw does not run.\<close>

fun andThen :: "'a outcome \<Rightarrow> ('a \<Rightarrow> 'a outcome) \<Rightarrow> 'a outcome" where
  "andThen (Done a) f = f a"
| "andThen (Threw a) f = Threw a"

text \<open>
  \<open>emptyWager()\<close> of \<open>startGame\<close>: the object with the count \<open>0\<close> for every item kind.
\<close>

definition emptyWager :: wagerMap where
  "emptyWager = (\<lambda>_. Fin 0)"

definition GAME_TIME :: int where
  "GAME_TIME = 180"

definition RECONNECT_GRACE_PERIOD :: int where
  "RECONNECT_GRACE_PERIOD = 30000"

text \<open>The values of \<open>game.status\<close>: the strings wager, ready, countdown, active, finished.\<close>

datatype status = Wager | Ready | Countdown | Active | Finished

text \<open>
  A socket object \<open>ws\<close>. Sockets are shared and mutated (\<open>ws.playerName\<close>,
  \<open>ws.playerId\<close>), so they live in a store and are named by a reference of type \<open>nat\<close>.
  \<open>isOpen\<close> is \<^verbatim>\<open>ws.readyState === WebSocket.OPEN\<close>. \<open>playerName\<close> is \<open>null\<close> on a new
  connection; the message \<open>set_name\<close> sets it to any non-empty string that the client
  chooses (trimmed, at most 20 characters).
\<close>

record sock =
  playerId :: string
  playerName :: "string option"
  ws_wagerMode :: bool
  isOpen :: bool

text \<open>
  A game id is the string \<^verbatim>\<open>game_${Date.now()}\<close>; it is represented by its time stamp.
\<close>

type_synonym gameId = int

text \<open>
  A player object of a game. \<open>wager\<close> is \<open>None\<close> when the property holds \<open>undefined\<close> or
  \<open>null\<close>: \<open>handleUpdateWager\<close> and \<open>handleConfirmWager\<close> store the \<open>wager\<close> field of the
  message as it comes, and a message may have none.
\<close>

record player =
  ws :: nat
  p_id :: string
  p_name :: string
  p_words :: "string list option"
  connected :: bool
  wager :: "wagerMap option"
  wagerConfirmed :: bool
  ready :: bool

text \<open>
  \<open>game.players\<close> is an array of exactly two players, built in \<open>startGame\<close> and never
  resized: the two fields \<open>player0\<close> and \<open>player1\<close>.
\<close>

record game =
  g_id :: gameId
  board :: "string list"
  startTime :: "int option"
  endTime :: "int option"
  wagerMode :: bool
  player0 :: player
  player1 :: player
  status :: status
  paused :: bool
  pausedAt :: "int option"
  pausedTimeRemaining :: "int option"

text \<open>The wager result of a \<open>game_end\<close> message: winner, pot and the \<open>returned\<close> flag.\<close>

record wagerResult =
  wr_winner :: "string option"
  wr_pot :: wagerMap
  wr_returned :: bool

text \<open>The messages the server sends.\<close>

datatype msg =
    ErrorMsg string
  | Searching
  | SearchCancelled
  | GameMatched gameId "string list" int bool string
  | WagerUpdated "wagerMap option"
  | OpponentWagerConfirmed
  | WagersLocked "wagerMap option" "wagerMap option"
  | OpponentCancelledWager
  | OpponentReady
  | BothReady nat
  | CountdownTick nat
  | GameStart int
  | ReconnectFailed string
  | ReconnectSuccess gameId "string list" int string bool "string list"
  | GamePaused string "int option"
  | GameResuming nat "int option"
  | GameResumed "int option"
  | OpponentReconnected
  | OpponentLeft string
  | OpponentDisconnected bool int
  | GameEnd "string option" "string list" "string \<times> results" "string \<times> results"
      "wagerResult option"

text \<open>
  The callbacks given to \<open>setTimeout\<close>. A callback closes over the game object (a
  reference into the store of games), not over its id.
\<close>

datatype callback =
    CountdownTickCb nat nat
  | CountdownDoneCb nat
  | GameTimeoutCb nat
  | ResumeTickCb nat nat
  | ResumeDoneCb nat "int option"
  | GraceExpiredCb nat gameId nat nat

record timer =
  t_id :: nat
  due :: int
  cb :: callback

text \<open>An entry of \<open>disconnectedPlayers\<close>.\<close>

record disconnectInfo =
  d_gameId :: gameId
  d_playerIndex :: nat
  d_name :: string
  d_words :: "string list"
  d_timeout :: nat

text \<open>
  The state of the server process. \<open>clock\<close> is \<open>Date.now()\<close> in milliseconds;
  \<open>games\<close> is the store of game objects and \<open>activeGames\<close> maps a game id to its
  object; \<open>itemsData\<close> gives, for a player name, what \<open>getPlayerData\<close> finds;
  \<open>timers\<close> are the pending \<open>setTimeout\<close> calls; \<open>outbox\<close> lists every \<open>ws.send\<close>,
  oldest first, with the socket it went to. \<open>crashed\<close> holds once an exception has left
  a timer callback: nothing catches it there, and the process ends.

  \<open>toUpperCase\<close> and \<open>localeCompare\<close> are the two string functions of the JavaScript
  runtime that the engine calls (\<open>String.prototype.toUpperCase\<close>, which maps the letters
  of every script and can change the length of a string, and
  \<open>String.prototype.localeCompare\<close>, the collation of the runtime's locale). They are
  not code of the repository: the state carries them and no function changes them.
\<close>

record server =
  clock :: int
  sockets :: "nat \<Rightarrow> sock"
  waitingPlayersCasual :: "nat list"
  waitingPlayersWager :: "nat list"
  games :: "nat \<Rightarrow> game"
  nextGame :: nat
  activeGames :: "gameId \<rightharpoonup> nat"
  playerToGame :: "string \<rightharpoonup> gameId"
  disconnectedPlayers :: "string \<rightharpoonup> disconnectInfo"
  itemsData :: accounts
  timers :: "timer list"
  nextTimer :: nat
  outbox :: "(nat \<times> msg) list"
  crashed :: bool
  toUpperCase :: "string \<Rightarrow> string"
  localeCompare :: "string \<Rightarrow> string \<Rightarrow> int"


section \<open>Sending, timers and the two player slots\<close>

definition wsSend :: "nat \<Rightarrow> msg \<Rightarrow> server \<Rightarrow> server" where
  "wsSend w m s = s\<lparr>outbox := outbox s @ [(w, m)]\<rparr>"

text \<open>
  \<^verbatim>\<open>if (p.connected && p.ws.readyState === WebSocket.OPEN) p.ws.send(...)\<close>
\<close>

definition sendIfOpen :: "player \<Rightarrow> msg \<Rightarrow> server \<Rightarrow> server" where
  "sendIfOpen p m s =
     (if connected p \<and> isOpen (sockets s (ws p)) then wsSend (ws p) m s else s)"

definition broadcastToGame :: "game \<Rightarrow> msg \<Rightarrow> server \<Rightarrow> server" where
  "broadcastToGame g m s = sendIfOpen (player1 g) m (sendIfOpen (player0 g) m s)"

definition setTimeout :: "callback \<Rightarrow> int \<Rightarrow> server \<Rightarrow> server" where
  "setTimeout c delay s =
     s\<lparr>timers := timers s @ [\<lparr>t_id = nextTimer s, due = clock s + delay, cb = c\<rparr>],
       nextTimer := Suc (nextTimer s)\<rparr>"

definition clearTimeout :: "nat \<Rightarrow> server \<Rightarrow> server" where
  "clearTimeout t s = s\<lparr>timers := filter (\<lambda>x. t_id x \<noteq> t) (timers s)\<rparr>"

definition getPlayer :: "game \<Rightarrow> nat \<Rightarrow> player" where
  "getPlayer g i = (if i = 0 then player0 g else player1 g)"

definition setPlayer :: "nat \<Rightarrow> player \<Rightarrow> game \<Rightarrow> game" where
  "setPlayer i p g = (if i = 0 then g\<lparr>player0 := p\<rparr> else g\<lparr>player1 := p\<rparr>)"

text \<open>\<^verbatim>\<open>game.players.findIndex(p => p.id === pid)\<close>: the first slot with that id.\<close>

definition findIndex :: "game \<Rightarrow> string \<Rightarrow> nat option" where
  "findIndex g pid =
     (if p_id (player0 g) = pid then Some 0
      else if p_id (player1 g) = pid then Some 1
      else None)"

definition putGame :: "nat \<Rightarrow> game \<Rightarrow> server \<Rightarrow> server" where
  "putGame r g s = s\<lparr>games := (games s)(r := g)\<rparr>"

text \<open>
  The name a socket brings into a game. \<open>startGame\<close> runs after \<open>handleFindGame\<close> has
  given both sockets a name; \<open>null\<close> as a property key would read as the string null.
\<close>

definition nameOf :: "sock \<Rightarrow> string" where
  "nameOf k = (case playerName k of None \<Rightarrow> ''null'' | Some n \<Rightarrow> n)"

definition wordsOr :: "string list option \<Rightarrow> string list" where
  "wordsOr x = (case x of None \<Rightarrow> [] | Some l \<Rightarrow> l)"

definition numOr0 :: "int option \<Rightarrow> int" where
  "numOr0 x = (case x of None \<Rightarrow> 0 | Some n \<Rightarrow> n)"


section \<open>Inventory updates\<close>

text \<open>
  The debit loop of \<open>handleConfirmWager\<close>:
  \<^verbatim>\<open>ITEM_ORDER.forEach(item => { if (wager[item] > 0) inv[item] = Math.max(0, (inv[item] || 0) - wager[item]); })\<close>
\<close>

definition debitItem :: "wagerMap \<Rightarrow> item \<Rightarrow> inventory \<Rightarrow> inventory" where
  "debitItem w it iv =
     (if gt0 (w it) then iv(it := max0 (jsSub (orZero (iv it)) (w it))) else iv)"

definition debit :: "wagerMap \<Rightarrow> inventory \<Rightarrow> inventory" where
  "debit w iv = fold (debitItem w) ITEM_ORDER iv"

text \<open>
  The credit loop of \<open>finishGame\<close> for the pot:
  \<^verbatim>\<open>ITEM_ORDER.forEach(item => { inv[item] = (inv[item] || 0) + pot[item]; })\<close>
\<close>

definition creditItem :: "wagerMap \<Rightarrow> item \<Rightarrow> inventory \<Rightarrow> inventory" where
  "creditItem v it iv = iv(it := jsAdd (orZero (iv it)) (v it))"

definition credit :: "wagerMap \<Rightarrow> inventory \<Rightarrow> inventory" where
  "credit v iv = fold (creditItem v) ITEM_ORDER iv"

text \<open>
  The credit loops for a wager that goes back to its player add \<^verbatim>\<open>(p.wager[item] || 0)\<close>:
  the counts \<open>orZeroAll w\<close>.
\<close>

definition orZeroAll :: "wagerMap \<Rightarrow> wagerMap" where
  "orZeroAll w = (\<lambda>it. orZero (w it))"

text \<open>
  \<open>debitPlayer\<close> is the block \<^verbatim>\<open>if (playerData) { ... }\<close> of \<open>handleConfirmWager\<close>.
  Without an account nothing is read. With one, \<^verbatim>\<open>wager[item]\<close> throws when the message
  had no wager. With an inherited property in the place of an account,
  \<^verbatim>\<open>playerData.inventory[item]\<close> throws at the first positive count.
\<close>

definition debitPlayer :: "string \<Rightarrow> wagerMap option \<Rightarrow> accounts \<Rightarrow> accounts outcome" where
  "debitPlayer n wg d =
     (case d n of
        NoAccount \<Rightarrow> Done d
      | Account iv \<Rightarrow>
          (case wg of None \<Rightarrow> Threw d | Some w \<Rightarrow> Done (d(n := Account (debit w iv))))
      | Inherited \<Rightarrow>
          (case wg of
             None \<Rightarrow> Threw d
           | Some w \<Rightarrow> if list_ex (\<lambda>it. gt0 (w it)) ITEM_ORDER then Threw d else Done d))"

text \<open>
  \<open>creditPlayer\<close> is the block \<^verbatim>\<open>if (winnerData) { ... }\<close> of \<open>finishGame\<close>: the pot is
  added to the account of the name; \<^verbatim>\<open>winnerData.inventory[item]\<close> throws when the name
  finds an inherited property.
\<close>

definition creditPlayer :: "string \<Rightarrow> wagerMap \<Rightarrow> accounts \<Rightarrow> accounts outcome" where
  "creditPlayer n v d =
     (case d n of
        NoAccount \<Rightarrow> Done d
      | Account iv \<Rightarrow> Done (d(n := Account (credit v iv)))
      | Inherited \<Rightarrow> Threw d)"

text \<open>
  \<open>returnWager\<close> is the block \<^verbatim>\<open>if (playerData) { ... }\<close> of the loops that give a
  player's own wager back (the tie of \<open>finishGame\<close>, \<open>handleLeaveWager\<close>,
  \<open>handleCancelReady\<close>): \<^verbatim>\<open>p.wager[item]\<close> throws when the player object holds no wager,
  \<^verbatim>\<open>playerData.inventory[item]\<close> when the name finds an inherited property.
\<close>

definition returnWager :: "player \<Rightarrow> accounts \<Rightarrow> accounts outcome" where
  "returnWager p d =
     (case d (p_name p) of
        NoAccount \<Rightarrow> Done d
      | Account iv \<Rightarrow>
          (case wager p of
             None \<Rightarrow> Threw d
           | Some w \<Rightarrow> Done (d(p_name p := Account (credit (orZeroAll w) iv))))
      | Inherited \<Rightarrow> Threw d)"

section \<open>Finishing a game (finishGame, cleanupGame)\<close>

definition cleanupGame :: "gameId \<Rightarrow> server \<Rightarrow> server" where
  "cleanupGame gid s =
     (case activeGames s gid of
        None \<Rightarrow> s
      | Some r \<Rightarrow>
          (let g = games s r in
           s\<lparr>playerToGame := ((playerToGame s)(p_id (player0 g) := None))(p_id (player1 g) := None),
             disconnectedPlayers :=
               ((disconnectedPlayers s)(p_id (player0 g) := None))(p_id (player1 g) := None),
             activeGames := (activeGames s)(gid := None)\<rparr>))"

text \<open>
  The pot: \<^verbatim>\<open>pot[item] = (players[0].wager[item] || 0) + (players[1].wager[item] || 0)\<close>.
  The read throws when one of the two player objects holds no wager: \<open>None\<close>.
\<close>

definition potOf :: "game \<Rightarrow> wagerMap option" where
  "potOf g =
     (case wager (player0 g) of
        None \<Rightarrow> None
      | Some a \<Rightarrow>
          (case wager (player1 g) of
             None \<Rightarrow> None
           | Some b \<Rightarrow> Some (\<lambda>it. jsAdd (orZero (a it)) (orZero (b it)))))"

definition hasWager :: "wagerMap \<Rightarrow> bool" where
  "hasWager pot = list_ex (\<lambda>it. gt0 (pot it)) ITEM_ORDER"

text \<open>
  \<open>finishGame\<close>, block by block. The word lists (\<^verbatim>\<open>game.players[i].words || []\<close>), the
  shared words and the two results; \<open>cmp\<close> is the \<open>localeCompare\<close> of the runtime.
\<close>

definition wordsOfPlayer :: "game \<Rightarrow> nat \<Rightarrow> string list" where
  "wordsOfPlayer g i = wordsOr (p_words (getPlayer g i))"

definition sharedOf :: "game \<Rightarrow> string list" where
  "sharedOf g = sharedWordsOf (wordsOfPlayer g 0) (wordsOfPlayer g 1)"

definition resultsOf :: "(string \<Rightarrow> string \<Rightarrow> int) \<Rightarrow> game \<Rightarrow> nat \<Rightarrow> results" where
  "resultsOf cmp g i = calculateResults cmp (wordsOfPlayer g i) (sharedOf g)"

text \<open>The index of the winner: the strictly greater score, \<open>None\<close> (\<open>-1\<close>) on a tie.\<close>

definition winnerIndexOf :: "(string \<Rightarrow> string \<Rightarrow> int) \<Rightarrow> game \<Rightarrow> nat option" where
  "winnerIndexOf cmp g =
     (if score (resultsOf cmp g 0) > score (resultsOf cmp g 1) then Some 0
      else if score (resultsOf cmp g 1) > score (resultsOf cmp g 0) then Some 1
      else None)"

text \<open>
  The distribution of the wagers: with a winner the pot goes to the account of the
  winner's name, on a tie every player's own wager goes back to the account of that
  player's name (player 0 first; a throw at player 1 leaves the credit of player 0 in
  place); without a positive count in the pot nothing happens.
\<close>

definition settleWager :: "(string \<Rightarrow> string \<Rightarrow> int) \<Rightarrow> game \<Rightarrow> wagerMap \<Rightarrow> accounts \<Rightarrow> accounts outcome" where
  "settleWager cmp g pot d =
     (if hasWager pot then
        (case winnerIndexOf cmp g of
           Some i \<Rightarrow> creditPlayer (p_name (getPlayer g i)) pot d
         | None \<Rightarrow> andThen (returnWager (player0 g) d) (returnWager (player1 g)))
      else Done d)"

text \<open>The \<open>wagerResult\<close> that the same branches report (\<open>null\<close> without a wager).\<close>

definition wagerResultOf :: "(string \<Rightarrow> string \<Rightarrow> int) \<Rightarrow> game \<Rightarrow> wagerMap \<Rightarrow> wagerResult option" where
  "wagerResultOf cmp g pot =
     (if hasWager pot then
        (case winnerIndexOf cmp g of
           Some i \<Rightarrow>
             Some \<lparr>wr_winner = Some (p_name (getPlayer g i)), wr_pot = pot,
                   wr_returned = False\<rparr>
         | None \<Rightarrow> Some \<lparr>wr_winner = None, wr_pot = pot, wr_returned = True\<rparr>)
      else None)"

text \<open>The \<open>game_end\<close> message for player \<open>i\<close>: \<open>you\<close> is player \<open>i\<close>, \<open>opponent\<close> the other.\<close>

definition gameEndMsg :: "(string \<Rightarrow> string \<Rightarrow> int) \<Rightarrow> game \<Rightarrow> wagerMap \<Rightarrow> nat \<Rightarrow> msg" where
  "gameEndMsg cmp g pot i =
     GameEnd (map_option (\<lambda>k. p_name (getPlayer g k)) (winnerIndexOf cmp g)) (sharedOf g)
       (p_name (getPlayer g i), resultsOf cmp g i)
       (p_name (getPlayer g (1 - i)), resultsOf cmp g (1 - i))
       (wagerResultOf cmp g pot)"

text \<open>
  \<open>finishGame\<close> marks the game finished first. A throw in the pot or in the credit loops
  leaves it so: no \<open>game_end\<close> is sent and \<open>cleanupGame\<close> does not run.
\<close>

definition finishGame :: "gameId \<Rightarrow> server \<Rightarrow> server outcome" where
  "finishGame gid s =
     (case activeGames s gid of
        None \<Rightarrow> Done s
      | Some r \<Rightarrow>
          if status (games s r) = Finished then Done s
          else
            (let g = (games s r)\<lparr>status := Finished\<rparr>;
                 s1 = putGame r g s;
                 cmp = localeCompare s
             in case potOf g of
                  None \<Rightarrow> Threw s1
                | Some pot \<Rightarrow>
                    (case settleWager cmp g pot (itemsData s1) of
                       Threw d \<Rightarrow> Threw (s1\<lparr>itemsData := d\<rparr>)
                     | Done d \<Rightarrow>
                         (let s2 = s1\<lparr>itemsData := d\<rparr>;
                              s3 = sendIfOpen (player0 g) (gameEndMsg cmp g pot 0) s2;
                              s4 = sendIfOpen (player1 g) (gameEndMsg cmp g pot 1) s3
                          in Done (cleanupGame gid s4)))))"

section \<open>Matchmaking (handleFindGame, handleCancelSearch, startGame, startCountdownPhase)\<close>

text \<open>
  \<open>startCountdownPhase\<close>: the three ticks after 0, 1 and 2 seconds, the activation after
  3 seconds, and the automatic end after \<open>(GAME_TIME + 15) * 1000 + countdownSeconds * 1000\<close>
  milliseconds.
\<close>

definition countdownSeconds :: nat where
  "countdownSeconds = 3"

definition startCountdownPhase :: "nat \<Rightarrow> server \<Rightarrow> server" where
  "startCountdownPhase r s =
     (let s1 = putGame r ((games s r)\<lparr>status := Countdown\<rparr>) s;
          s2 = fold (\<lambda>i. setTimeout (CountdownTickCb r i) (int (countdownSeconds - i) * 1000))
                 [3, 2, 1] s1;
          s3 = setTimeout (CountdownDoneCb r) (int countdownSeconds * 1000) s2
      in setTimeout (GameTimeoutCb r) ((GAME_TIME + 15) * 1000 + int countdownSeconds * 1000) s3)"

definition newPlayer :: "nat \<Rightarrow> sock \<Rightarrow> player" where
  "newPlayer w k =
     \<lparr>ws = w, p_id = playerId k, p_name = nameOf k, p_words = None, connected = True,
      wager = Some emptyWager, wagerConfirmed = False, ready = False\<rparr>"

text \<open>
  \<open>startGame\<close>. \<open>genBoard\<close> is the board that \<open>generateBoard()\<close> draws. The new game
  object gets a fresh reference; \<open>activeGames.set\<close> stores it under the id made from the
  clock.
\<close>

definition startGame :: "nat \<Rightarrow> nat \<Rightarrow> bool \<Rightarrow> string list \<Rightarrow> server \<Rightarrow> server" where
  "startGame pl1 pl2 wMode genBoard s =
     (let gid = clock s;
          r = nextGame s;
          k1 = sockets s pl1;
          k2 = sockets s pl2;
          g = \<lparr>g_id = gid, board = genBoard, startTime = None, endTime = None,
               wagerMode = wMode, player0 = newPlayer pl1 k1, player1 = newPlayer pl2 k2,
               status = (if wMode then Wager else Countdown), paused = False,
               pausedAt = None, pausedTimeRemaining = None\<rparr>;
          s1 = s\<lparr>games := (games s)(r := g), nextGame := Suc r,
                 activeGames := (activeGames s)(gid \<mapsto> r),
                 playerToGame := ((playerToGame s)(playerId k1 \<mapsto> gid))(playerId k2 \<mapsto> gid)\<rparr>;
          s2 = wsSend pl1 (GameMatched gid genBoard GAME_TIME wMode (nameOf k2)) s1;
          s3 = wsSend pl2 (GameMatched gid genBoard GAME_TIME wMode (nameOf k1)) s2
      in if \<not> wMode then startCountdownPhase r s3 else s3)"

text \<open>
  \<open>handleFindGame\<close>. \<open>genName\<close> is the name that \<open>generateName()\<close> draws, used when
  \<open>ws.playerName\<close> is falsy (\<open>null\<close> or the empty string). \<open>queueOf\<close> is
  \<^verbatim>\<open>wagerMode ? waitingPlayersWager : waitingPlayersCasual\<close>; \<open>queue.shift()\<close> takes the
  head of the queue, \<open>queue.push(ws)\<close> appends.
\<close>

definition queueOf :: "bool \<Rightarrow> server \<Rightarrow> nat list" where
  "queueOf wMode s = (if wMode then waitingPlayersWager s else waitingPlayersCasual s)"

definition setQueue :: "bool \<Rightarrow> nat list \<Rightarrow> server \<Rightarrow> server" where
  "setQueue wMode q s =
     (if wMode then s\<lparr>waitingPlayersWager := q\<rparr> else s\<lparr>waitingPlayersCasual := q\<rparr>)"

definition handleFindGame :: "nat \<Rightarrow> bool \<Rightarrow> string \<Rightarrow> string list \<Rightarrow> server \<Rightarrow> server" where
  "handleFindGame w wMode genName genBoard s =
     (if w \<in> set (waitingPlayersCasual s) \<or> w \<in> set (waitingPlayersWager s)
      then wsSend w (ErrorMsg ''Already searching'') s
      else if playerToGame s (playerId (sockets s w)) \<noteq> None
      then wsSend w (ErrorMsg ''Already in game'') s
      else
        (let k = sockets s w;
             k1 = (if playerName k = None \<or> playerName k = Some [] then k\<lparr>playerName := Some genName\<rparr>
                   else k);
             s1 = s\<lparr>sockets := (sockets s)(w := k1\<lparr>ws_wagerMode := wMode\<rparr>)\<rparr>
         in case queueOf wMode s1 of
              opponent # rest \<Rightarrow> startGame w opponent wMode genBoard (setQueue wMode rest s1)
            | [] \<Rightarrow> wsSend w Searching (setQueue wMode (queueOf wMode s1 @ [w]) s1)))"

text \<open>\<open>indexOf\<close> and \<open>splice(idx, 1)\<close> remove the first occurrence: \<open>remove1\<close>.\<close>

definition handleCancelSearch :: "nat \<Rightarrow> server \<Rightarrow> server" where
  "handleCancelSearch w s =
     (if w \<in> set (waitingPlayersCasual s)
      then wsSend w SearchCancelled (s\<lparr>waitingPlayersCasual := remove1 w (waitingPlayersCasual s)\<rparr>)
      else if w \<in> set (waitingPlayersWager s)
      then wsSend w SearchCancelled (s\<lparr>waitingPlayersWager := remove1 w (waitingPlayersWager s)\<rparr>)
      else s)"


section \<open>Wager and ready handlers\<close>

text \<open>\<open>handleUpdateWager\<close> stores and forwards the \<open>wager\<close> field as it comes.\<close>

definition handleUpdateWager :: "nat \<Rightarrow> gameId \<Rightarrow> wagerMap option \<Rightarrow> server \<Rightarrow> server" where
  "handleUpdateWager w gid wg s =
     (case activeGames s gid of
        None \<Rightarrow> s
      | Some r \<Rightarrow>
          if status (games s r) \<noteq> Wager then s
          else
            (case findIndex (games s r) (playerId (sockets s w)) of
               None \<Rightarrow> s
             | Some i \<Rightarrow>
                 (let g = games s r;
                      g1 = setPlayer i ((getPlayer g i)\<lparr>wager := wg\<rparr>) g;
                      s1 = putGame r g1 s
                  in sendIfOpen (getPlayer g1 (1 - i)) (WagerUpdated wg) s1)))"

text \<open>
  \<open>handleConfirmWager\<close>: the wager is stored and the player marked confirmed, then the
  inventory of the player's account is debited, each count clamped at zero; nothing is
  compared with the holdings and no error is sent. A throw in the debit comes after the
  two assignments and before the notification and the move to the ready phase.
\<close>

definition handleConfirmWager :: "nat \<Rightarrow> gameId \<Rightarrow> wagerMap option \<Rightarrow> server \<Rightarrow> server outcome" where
  "handleConfirmWager w gid wg s =
     (case activeGames s gid of
        None \<Rightarrow> Done s
      | Some r \<Rightarrow>
          if status (games s r) \<noteq> Wager then Done s
          else
            (case findIndex (games s r) (playerId (sockets s w)) of
               None \<Rightarrow> Done s
             | Some i \<Rightarrow>
                 (let g = games s r;
                      p = (getPlayer g i)\<lparr>wager := wg, wagerConfirmed := True\<rparr>;
                      g1 = setPlayer i p g;
                      s1 = putGame r g1 s
                  in case debitPlayer (p_name p) wg (itemsData s1) of
                       Threw d \<Rightarrow> Threw (s1\<lparr>itemsData := d\<rparr>)
                     | Done d \<Rightarrow>
                         (let s2 = s1\<lparr>itemsData := d\<rparr>;
                              s3 = sendIfOpen (getPlayer g1 (1 - i)) OpponentWagerConfirmed s2
                          in if wagerConfirmed (player0 g1) \<and> wagerConfirmed (player1 g1) then
                               (let g2 = g1\<lparr>status := Ready\<rparr>;
                                    s4 = putGame r g2 s3;
                                    s5 = sendIfOpen (player0 g2)
                                           (WagersLocked (wager (player0 g2)) (wager (player1 g2))) s4
                                in Done (sendIfOpen (player1 g2)
                                     (WagersLocked (wager (player1 g2)) (wager (player0 g2))) s5))
                             else Done s3))))"

text \<open>The refund loop of \<open>handleLeaveWager\<close> and \<open>handleCancelReady\<close>, for one player.\<close>

definition refundPlayer :: "player \<Rightarrow> accounts \<Rightarrow> accounts outcome" where
  "refundPlayer p d = (if wagerConfirmed p then returnWager p d else Done d)"

text \<open>
  \<open>handleLeaveWager\<close> looks the game up and does not look at \<open>game.status\<close>. A throw in
  the refund loop comes before the notification and the removal of the game.
\<close>

definition handleLeaveWager :: "nat \<Rightarrow> gameId \<Rightarrow> server \<Rightarrow> server outcome" where
  "handleLeaveWager w gid s =
     (case activeGames s gid of
        None \<Rightarrow> Done s
      | Some r \<Rightarrow>
          (case findIndex (games s r) (playerId (sockets s w)) of
             None \<Rightarrow> Done s
           | Some i \<Rightarrow>
               (let g = games s r
                in case andThen (refundPlayer (player0 g) (itemsData s)) (refundPlayer (player1 g)) of
                     Threw d \<Rightarrow> Threw (s\<lparr>itemsData := d\<rparr>)
                   | Done d \<Rightarrow>
                       (let s1 = s\<lparr>itemsData := d\<rparr>;
                            s2 = sendIfOpen (getPlayer g (1 - i)) OpponentCancelledWager s1
                        in Done (s2\<lparr>playerToGame :=
                                 ((playerToGame s2)(p_id (player0 g) := None))(p_id (player1 g) := None),
                               activeGames := (activeGames s2)(gid := None)\<rparr>)))))"

definition handleCancelReady :: "nat \<Rightarrow> gameId \<Rightarrow> server \<Rightarrow> server outcome" where
  "handleCancelReady w gid s =
     (case activeGames s gid of
        None \<Rightarrow> Done s
      | Some r \<Rightarrow>
          (case findIndex (games s r) (playerId (sockets s w)) of
             None \<Rightarrow> Done s
           | Some i \<Rightarrow>
               (let g = games s r
                in case andThen (refundPlayer (player0 g) (itemsData s)) (refundPlayer (player1 g)) of
                     Threw d \<Rightarrow> Threw (s\<lparr>itemsData := d\<rparr>)
                   | Done d \<Rightarrow>
                       (let s1 = s\<lparr>itemsData := d\<rparr>;
                            s2 = sendIfOpen (getPlayer g (1 - i)) OpponentCancelledWager s1
                        in Done (s2\<lparr>playerToGame :=
                                 ((playerToGame s2)(p_id (player0 g) := None))(p_id (player1 g) := None),
                               activeGames := (activeGames s2)(gid := None)\<rparr>)))))"

definition handlePlayerReady :: "nat \<Rightarrow> gameId \<Rightarrow> server \<Rightarrow> server" where
  "handlePlayerReady w gid s =
     (case activeGames s gid of
        None \<Rightarrow> s
      | Some r \<Rightarrow>
          if status (games s r) \<noteq> Ready then s
          else
            (case findIndex (games s r) (playerId (sockets s w)) of
               None \<Rightarrow> s
             | Some i \<Rightarrow>
                 (let g = games s r;
                      g1 = setPlayer i ((getPlayer g i)\<lparr>ready := True\<rparr>) g;
                      s1 = putGame r g1 s;
                      s2 = sendIfOpen (getPlayer g1 (1 - i)) OpponentReady s1
                  in if ready (player0 g1) \<and> ready (player1 g1)
                     then startCountdownPhase r (broadcastToGame g1 (BothReady 3) s2)
                     else s2)))"


section \<open>Pause, resume, reconnect and disconnect\<close>

text \<open>
  The remaining seconds, \<^verbatim>\<open>Math.max(0, Math.floor((game.endTime - Date.now()) / 1000))\<close>;
  an \<open>endTime\<close> of \<open>null\<close> counts as \<open>0\<close> in the subtraction.
\<close>

definition remainingSeconds :: "game \<Rightarrow> int \<Rightarrow> int" where
  "remainingSeconds g now = max 0 ((numOr0 (endTime g) - now) div 1000)"

definition pauseGame :: "nat \<Rightarrow> string \<Rightarrow> server \<Rightarrow> server" where
  "pauseGame r disconnectedPlayerName s =
     (if paused (games s r) then s
      else
        (let g = (games s r)\<lparr>paused := True, pausedAt := Some (clock s),
                   pausedTimeRemaining := Some (remainingSeconds (games s r) (clock s))\<rparr>;
             s1 = putGame r g s;
             m = GamePaused (disconnectedPlayerName @ '' disconnected'') (pausedTimeRemaining g)
         in sendIfOpen (player1 g) m (sendIfOpen (player0 g) m s1)))"

definition resumeGame :: "nat \<Rightarrow> server \<Rightarrow> server" where
  "resumeGame r s =
     (if \<not> paused (games s r) then s
      else
        (let timeRemaining = pausedTimeRemaining (games s r);
             s1 = broadcastToGame (games s r) (GameResuming countdownSeconds timeRemaining) s;
             s2 = fold (\<lambda>i. setTimeout (ResumeTickCb r i) (int (countdownSeconds - i) * 1000))
                    [3, 2, 1] s1
         in setTimeout (ResumeDoneCb r timeRemaining) (int countdownSeconds * 1000) s2))"

definition handleReconnect :: "nat \<Rightarrow> gameId \<Rightarrow> string \<Rightarrow> server \<Rightarrow> server" where
  "handleReconnect w gid oldPlayerId s =
     (case activeGames s gid of
        None \<Rightarrow> wsSend w (ReconnectFailed ''Game not found or already ended'') s
      | Some r \<Rightarrow>
          (case findIndex (games s r) oldPlayerId of
             None \<Rightarrow> wsSend w (ReconnectFailed ''Player not in game'') s
           | Some i \<Rightarrow>
               (let disconnectInfo = disconnectedPlayers s oldPlayerId;
                    s1 = (case disconnectInfo of
                            None \<Rightarrow> s
                          | Some d \<Rightarrow>
                              (clearTimeout (d_timeout d) s)
                                \<lparr>disconnectedPlayers := (disconnectedPlayers s)(oldPlayerId := None)\<rparr>);
                    g = games s1 r;
                    p = (getPlayer g i)\<lparr>ws := w, connected := True\<rparr>;
                    g1 = setPlayer i p g;
                    s2 = (putGame r g1 s1)
                           \<lparr>sockets := (sockets s1)
                              (w := (sockets s1 w)\<lparr>playerId := oldPlayerId,
                                                  playerName := Some (p_name p)\<rparr>),
                            playerToGame := (playerToGame s1)(oldPlayerId \<mapsto> gid)\<rparr>;
                    opponent = getPlayer g1 (1 - i);
                    timeRemaining =
                      (case pausedTimeRemaining g1 of
                         Some t \<Rightarrow> if paused g1 then t else remainingSeconds g1 (clock s2)
                       | None \<Rightarrow> remainingSeconds g1 (clock s2));
                    s3 = wsSend w
                           (ReconnectSuccess gid (board g1) timeRemaining (p_name opponent)
                              (paused g1)
                              (case disconnectInfo of None \<Rightarrow> [] | Some d \<Rightarrow> d_words d)) s2;
                    s4 = (if paused g1 \<and> \<not> connected opponent
                          then wsSend w (GamePaused ''Opponent disconnected'' None) s3
                          else if paused g1 then resumeGame r s3
                          else s3)
                in sendIfOpen opponent OpponentReconnected s4)))"

text \<open>
  \<open>handleDisconnect\<close>, run when a socket closes. The grace timer closes over the socket,
  the game id and the opponent's player object (the game reference and the slot).
\<close>

definition handleDisconnect :: "nat \<Rightarrow> server \<Rightarrow> server" where
  "handleDisconnect w s =
     (let s0 = s\<lparr>waitingPlayersCasual := remove1 w (waitingPlayersCasual s),
                 waitingPlayersWager := remove1 w (waitingPlayersWager s)\<rparr>;
          pid = playerId (sockets s0 w)
      in case playerToGame s0 pid of
           None \<Rightarrow> s0
         | Some gid \<Rightarrow>
             (case activeGames s0 gid of
                None \<Rightarrow> s0
              | Some r \<Rightarrow>
                  if status (games s0 r) = Finished then s0
                  else
                    (case findIndex (games s0 r) pid of
                       None \<Rightarrow> s0
                     | Some i \<Rightarrow>
                         (let g = games s0 r;
                              p = (getPlayer g i)\<lparr>connected := False\<rparr>;
                              g1 = setPlayer i p g;
                              s1 = putGame r g1 s0;
                              tid = nextTimer s1;
                              s2 = setTimeout (GraceExpiredCb w gid r (1 - i))
                                     RECONNECT_GRACE_PERIOD s1;
                              s3 = s2\<lparr>disconnectedPlayers := (disconnectedPlayers s2)
                                       (pid \<mapsto> \<lparr>d_gameId = gid, d_playerIndex = i,
                                                d_name = p_name p, d_words = wordsOr (p_words p),
                                                d_timeout = tid\<rparr>)\<rparr>;
                              s4 = pauseGame r (p_name p) s3
                          in sendIfOpen (getPlayer (games s4 r) (1 - i))
                               (OpponentDisconnected True (RECONNECT_GRACE_PERIOD div 1000)) s4))))"

section \<open>Word submission\<close>

text \<open>
  \<open>handleSubmitWords\<close>: the list is stored upper-cased and deduplicated,
  \<^verbatim>\<open>player.words = [...new Set(words.map(w => w.toUpperCase()))]\<close>, whatever the status of
  the game and whether or not the player has words already. With both lists present
  \<open>finishGame\<close> runs, and a throw of \<open>finishGame\<close> leaves the handler.
\<close>

definition handleSubmitWords :: "nat \<Rightarrow> string list \<Rightarrow> server \<Rightarrow> server outcome" where
  "handleSubmitWords w wds s =
     (case playerToGame s (playerId (sockets s w)) of
        None \<Rightarrow> Done (wsSend w (ErrorMsg ''Not in a game'') s)
      | Some gid \<Rightarrow>
          (case activeGames s gid of
             None \<Rightarrow> Done s
           | Some r \<Rightarrow>
               (case findIndex (games s r) (playerId (sockets s w)) of
                  None \<Rightarrow> Done s
                | Some i \<Rightarrow>
                    (let g = games s r;
                         g1 = setPlayer i
                                ((getPlayer g i)\<lparr>p_words := Some (newSet (map (toUpperCase s) wds))\<rparr>) g;
                         s1 = putGame r g1 s
                     in if p_words (player0 g1) \<noteq> None \<and> p_words (player1 g1) \<noteq> None
                        then finishGame gid s1
                        else Done s1))))"

section \<open>Timer callbacks and the event loop\<close>

definition isActiveGame :: "nat \<Rightarrow> server \<Rightarrow> bool" where
  "isActiveGame r s = (activeGames s (g_id (games s r)) \<noteq> None)"

fun runCallback :: "callback \<Rightarrow> server \<Rightarrow> server outcome" where
  "runCallback (CountdownTickCb r i) s =
     (if isActiveGame r s \<and> status (games s r) = Countdown
      then Done (broadcastToGame (games s r) (CountdownTick i) s) else Done s)"
| "runCallback (CountdownDoneCb r) s =
     (if isActiveGame r s \<and> status (games s r) = Countdown
      then
        (let g = (games s r)\<lparr>status := Active, startTime := Some (clock s),
                   endTime := Some (clock s + GAME_TIME * 1000)\<rparr>
         in Done (broadcastToGame g (GameStart GAME_TIME) (putGame r g s)))
      else Done s)"
| "runCallback (GameTimeoutCb r) s =
     (if isActiveGame r s \<and> status (games s r) \<noteq> Finished
      then finishGame (g_id (games s r)) s else Done s)"
| "runCallback (ResumeTickCb r i) s =
     (if paused (games s r) then Done (broadcastToGame (games s r) (CountdownTick i) s)
      else Done s)"
| "runCallback (ResumeDoneCb r timeRemaining) s =
     (if \<not> paused (games s r) then Done s
      else
        (let g = (games s r)\<lparr>endTime := Some (clock s + numOr0 timeRemaining * 1000),
                   paused := False, pausedAt := None, pausedTimeRemaining := None\<rparr>
         in Done (broadcastToGame g (GameResumed timeRemaining) (putGame r g s))))"
| "runCallback (GraceExpiredCb w gid r oppIndex) s =
     (let s1 = s\<lparr>disconnectedPlayers :=
                   (disconnectedPlayers s)(playerId (sockets s w) := None)\<rparr>;
          s2 = sendIfOpen (getPlayer (games s1 r) oppIndex)
                 (OpponentLeft ''Opponent did not reconnect'') s1
      in finishGame gid s2)"

text \<open>
  The messages of a client that the match engine handles, by \<open>msg.type\<close>. The \<open>wager\<close>
  field of \<open>update_wager\<close> and \<open>confirm_wager\<close> is a wager as the client writes it, or
  absent (\<open>None\<close>).
\<close>

datatype inMsg =
    find_game bool
  | cancel_search
  | submit_words "string list"
  | reconnect gameId string
  | update_wager gameId "jsonWager option"
  | confirm_wager gameId "jsonWager option"
  | leave_wager gameId
  | player_ready gameId
  | cancel_ready gameId

definition handleMessage :: "nat \<Rightarrow> inMsg \<Rightarrow> string \<Rightarrow> string list \<Rightarrow> server \<Rightarrow> server outcome" where
  "handleMessage w m genName genBoard s =
     (case m of
        find_game wMode \<Rightarrow> Done (handleFindGame w wMode genName genBoard s)
      | cancel_search \<Rightarrow> Done (handleCancelSearch w s)
      | submit_words wds \<Rightarrow> handleSubmitWords w wds s
      | reconnect gid pid \<Rightarrow> Done (handleReconnect w gid pid s)
      | update_wager gid wg \<Rightarrow> Done (handleUpdateWager w gid (map_option parseWager wg) s)
      | confirm_wager gid wg \<Rightarrow> handleConfirmWager w gid (map_option parseWager wg) s
      | leave_wager gid \<Rightarrow> handleLeaveWager w gid s
      | player_ready gid \<Rightarrow> Done (handlePlayerReady w gid s)
      | cancel_ready gid \<Rightarrow> handleCancelReady w gid s)"

text \<open>
  One turn of the event loop: a message from a socket (with the draws of the random
  generators, should the handler ask for them), the close of a socket, the firing of a
  pending timer that is due, or the passing of \<open>d\<close> milliseconds (the clock never goes
  back).
\<close>

datatype event =
    Message nat inMsg string "string list"
  | Close nat
  | Fire nat
  | Advance int

definition fireTimer :: "nat \<Rightarrow> server \<Rightarrow> server outcome" where
  "fireTimer t s =
     (case filter (\<lambda>x. t_id x = t \<and> due x \<le> clock s) (timers s) of
        [] \<Rightarrow> Done s
      | x # _ \<Rightarrow> runCallback (cb x) (s\<lparr>timers := filter (\<lambda>y. t_id y \<noteq> t) (timers s)\<rparr>))"

text \<open>
  The listener of \<open>message\<close> wraps \<open>handleMessage\<close> in \<^verbatim>\<open>try { ... } catch (e) { console.error(...) }\<close>:
  a throw of a handler is logged and the server goes on from the state the handler left.
  Nothing catches a throw of a timer callback: the process ends (\<open>crashed\<close>), and a
  process that has ended takes no further turn.
\<close>

definition onMessage :: "nat \<Rightarrow> inMsg \<Rightarrow> string \<Rightarrow> string list \<Rightarrow> server \<Rightarrow> server" where
  "onMessage w m genName genBoard s = stateOf (handleMessage w m genName genBoard s)"

definition onTimer :: "nat \<Rightarrow> server \<Rightarrow> server" where
  "onTimer t s = (case fireTimer t s of Done u \<Rightarrow> u | Threw u \<Rightarrow> u\<lparr>crashed := True\<rparr>)"

fun turn :: "event \<Rightarrow> server \<Rightarrow> server" where
  "turn (Message w m genName genBoard) s = onMessage w m genName genBoard s"
| "turn (Close w) s =
     handleDisconnect w (s\<lparr>sockets := (sockets s)(w := (sockets s w)\<lparr>isOpen := False\<rparr>)\<rparr>)"
| "turn (Fire t) s = onTimer t s"
| "turn (Advance d) s = (if 0 \<le> d then s\<lparr>clock := clock s + d\<rparr> else s)"

definition step :: "event \<Rightarrow> server \<Rightarrow> server" where
  "step e s = (if crashed s then s else turn e s)"

definition run :: "event list \<Rightarrow> server \<Rightarrow> server" where
  "run es s = fold step es s"


section \<open>A concrete server, for the examples\<close>

text \<open>
  The runtime of the examples. Their words are made of ASCII letters, on which
  \<open>toUpperCase\<close> maps \<open>a\<close> to \<open>z\<close> (codes 97 to 122) to \<open>A\<close> to \<open>Z\<close> and \<open>localeCompare\<close>
  orders words of one case alphabetically.
\<close>

definition exUpperChar :: "char \<Rightarrow> char" where
  "exUpperChar c =
     (let n = (of_char c :: nat) in if 97 \<le> n \<and> n \<le> 122 then char_of (n - 32) else c)"

definition exToUpperCase :: "string \<Rightarrow> string" where
  "exToUpperCase w = map exUpperChar w"

fun exLocaleCompare :: "string \<Rightarrow> string \<Rightarrow> int" where
  "exLocaleCompare [] [] = 0"
| "exLocaleCompare [] (y # ys) = - 1"
| "exLocaleCompare (x # xs) [] = 1"
| "exLocaleCompare (x # xs) (y # ys) =
     (if (of_char x :: nat) < of_char y then - 1
      else if (of_char y :: nat) < of_char x then 1
      else exLocaleCompare xs ys)"

text \<open>
  Six sockets: socket 1 is logged in as alice and socket 2 as bob; the sockets 3, 4 and
  5 are fresh connections without a name; socket 6 has sent \<open>set_name\<close> with the name
  \<open>constructor\<close>. The account of alice holds one gold coin, the account of bob five; there
  is no other account.
\<close>

definition exSock :: "nat \<Rightarrow> sock" where
  "exSock n =
     (if n = 1 then \<lparr>playerId = ''p1'', playerName = Some ''alice'', ws_wagerMode = False, isOpen = True\<rparr>
      else if n = 2 then \<lparr>playerId = ''p2'', playerName = Some ''bob'', ws_wagerMode = False, isOpen = True\<rparr>
      else if n = 3 then \<lparr>playerId = ''p3'', playerName = None, ws_wagerMode = False, isOpen = True\<rparr>
      else if n = 4 then \<lparr>playerId = ''p4'', playerName = None, ws_wagerMode = False, isOpen = True\<rparr>
      else if n = 6 then \<lparr>playerId = ''p6'', playerName = Some ''constructor'', ws_wagerMode = False, isOpen = True\<rparr>
      else \<lparr>playerId = ''p5'', playerName = None, ws_wagerMode = False, isOpen = True\<rparr>)"

text \<open>The content of a reference of the game store that no game has been given yet.\<close>

definition noGame :: game where
  "noGame = \<lparr>g_id = 0, board = [], startTime = None, endTime = None, wagerMode = False,
     player0 = newPlayer 0 (exSock 0), player1 = newPlayer 0 (exSock 0), status = Finished,
     paused = False, pausedAt = None, pausedTimeRemaining = None\<rparr>"

text \<open>A wager of \<open>n\<close> gold coins, as a client writes it and as the handlers get it.\<close>

definition goldJson :: "int \<Rightarrow> jsonWager" where
  "goldJson n = (\<lambda>_. 0)(gold_coin := n)"

definition gold :: "int \<Rightarrow> wagerMap" where
  "gold n = counts (goldJson n)"

definition exAccounts :: accounts where
  "exAccounts =
     (\<lambda>n. if n = ''alice'' then Account (gold 1)
          else if n = ''bob'' then Account (gold 5)
          else if n \<in> set objectPrototypeKeys then Inherited
          else NoAccount)"

definition exInit :: server where
  "exInit = \<lparr>clock = 1000, sockets = exSock, waitingPlayersCasual = [], waitingPlayersWager = [],
     games = (\<lambda>_. noGame), nextGame = 0, activeGames = Map.empty, playerToGame = Map.empty,
     disconnectedPlayers = Map.empty, itemsData = exAccounts,
     timers = [], nextTimer = 0, outbox = [], crashed = False,
     toUpperCase = exToUpperCase, localeCompare = exLocaleCompare\<rparr>"

definition exBoard :: "string list" where
  "exBoard = [''C'', ''A'', ''B'', ''S'', ''E'', ''T'', ''O'', ''N'', ''R'', ''I'', ''D'', ''L'',
     ''M'', ''U'', ''H'', ''Y'']"

text \<open>The gold coins in the account of a name (\<open>None\<close> when the name has no account).\<close>

definition goldOf :: "string \<Rightarrow> server \<Rightarrow> jsnum option" where
  "goldOf n s = (case itemsData s n of Account iv \<Rightarrow> Some (iv gold_coin) | _ \<Rightarrow> None)"

text \<open>Socket 1 is waiting in the casual queue.\<close>

definition exQueued :: server where
  "exQueued = handleFindGame 1 False ''Gen'' exBoard exInit"

text \<open>
  Socket 2 has joined socket 1: a casual game, with the id 1000 and the reference 0, in
  its countdown. Player 0 is the arriver (bob), player 1 the waiter (alice).
\<close>

definition exCasual :: server where
  "exCasual = handleFindGame 2 False ''Gen'' exBoard exQueued"

text \<open>The same two sockets matched in wager mode: the game is in its wager phase.\<close>

definition exWager :: server where
  "exWager =
     handleFindGame 2 True ''Gen'' exBoard (handleFindGame 1 True ''Gen'' exBoard exInit)"

text \<open>The casual game after its countdown: the four timers of the countdown have fired.\<close>

definition exActive :: server where
  "exActive =
     run [Fire 0, Advance 1000, Fire 1, Advance 1000, Fire 2, Advance 1000, Fire 3] exCasual"

text \<open>An error sent to a client: \<^verbatim>\<open>{ type: 'error', message: ... }\<close>.\<close>

fun isErrorMsg :: "nat \<times> msg \<Rightarrow> bool" where
  "isErrorMsg (w, ErrorMsg e) = True"
| "isErrorMsg (w, m) = False"

text \<open>In the wager game, alice (socket 1) confirms a wager of two gold coins; she holds one.\<close>

definition exConfirmed :: server where
  "exConfirmed = stateOf (handleConfirmWager 1 1000 (Some (gold 2)) exWager)"

text \<open>The active casual game after the socket of alice has closed: the game is paused.\<close>

definition exPaused :: server where
  "exPaused = step (Close 1) exActive"

text \<open>
  The wager game with both wagers confirmed within the holdings (bob two gold coins,
  alice one), then made ready and taken through its countdown; and the same game after bob
  has submitted one word.
\<close>

definition exLocked :: server where
  "exLocked =
     run [Message 2 (confirm_wager 1000 (Some (goldJson 2))) ''Gen'' exBoard,
          Message 1 (confirm_wager 1000 (Some (goldJson 1))) ''Gen'' exBoard] exWager"

definition exWagerActive :: server where
  "exWagerActive =
     run [Message 1 (player_ready 1000) ''Gen'' exBoard,
          Message 2 (player_ready 1000) ''Gen'' exBoard,
          Fire 0, Advance 1000, Fire 1, Advance 1000, Fire 2, Advance 1000, Fire 3] exLocked"

definition exBobSubmitted :: server where
  "exBobSubmitted = step (Message 2 (submit_words [''abc'']) ''Gen'' exBoard) exWagerActive"

text \<open>In the active casual game, bob (socket 2, player 0) submits twice.\<close>

definition exSubmit1 :: server where
  "exSubmit1 = step (Message 2 (submit_words [''cat'', ''Cat'']) ''Gen'' exBoard) exActive"

definition exSubmit2 :: server where
  "exSubmit2 = step (Message 2 (submit_words [''dog'']) ''Gen'' exBoard) exSubmit1"

text \<open>After bob has submitted, the socket of alice closes.\<close>

definition exDropped :: server where
  "exDropped = step (Close 1) exSubmit1"

text \<open>
  A flaky connection. In the active casual game (end of the round at 184000) the socket of
  alice closes at 84000; she reconnects on socket 3 at 85000 and loses it at 86000;
  she reconnects on socket 4 at 87000, while the resume countdown of her first reconnect
  is still pending. That countdown ends at 88000 and resumes the game. \<open>exResumed\<close> is
  the state at 89000: the game is active and not paused, alice is connected on socket 4,
  and the resume callback of her second reconnect (timer 14, due at 90000) is pending.
\<close>

definition exResumed :: server where
  "exResumed =
     run [Advance 80000, Close 1,
          Advance 1000, Message 3 (reconnect 1000 ''p1'') ''Gen'' exBoard, Fire 6,
          Advance 1000, Fire 7, Close 3,
          Advance 1000, Fire 8, Message 4 (reconnect 1000 ''p1'') ''Gen'' exBoard, Fire 11,
          Advance 1000, Fire 9, Fire 12,
          Advance 1000, Fire 13] exActive"

text \<open>At 89000 socket 4 closes: alice disconnects from the active game.\<close>

definition exThirdDrop :: server where
  "exThirdDrop = step (Close 4) exResumed"

text \<open>
  The pending resume callback fires at 90000, and alice reconnects on socket 5 at 95000,
  six seconds after the disconnect.
\<close>

definition exThirdReconnect :: server where
  "exThirdReconnect =
     run [Advance 1000, Fire 14,
          Advance 5000, Message 5 (reconnect 1000 ''p1'') ''Gen'' exBoard] exThirdDrop"

text \<open>The \<open>timeRemaining\<close> and \<open>paused\<close> fields of the \<open>reconnect_success\<close> sent to a socket.\<close>

fun reconnectSuccessOf :: "nat \<Rightarrow> nat \<times> msg \<Rightarrow> (int \<times> bool) option" where
  "reconnectSuccessOf w (w', ReconnectSuccess gid b timeRemaining opp p wds) =
     (if w' = w then Some (timeRemaining, p) else None)"
| "reconnectSuccessOf w (w', m) = None"

text \<open>
  A wager game between alice (socket 1, the waiter) and a player who is not logged in
  (socket 3, the arriver and player 0, given the name Gen, which has no account). Alice
  confirms one gold coin, the other player confirms the empty wager; the game is made
  ready and taken through its countdown, and the player without account submits a word.
\<close>

definition exAnonLocked :: server where
  "exAnonLocked =
     run [Message 1 (find_game True) ''Gen'' exBoard,
          Message 3 (find_game True) ''Gen'' exBoard,
          Message 1 (confirm_wager 1000 (Some (goldJson 1))) ''Gen'' exBoard,
          Message 3 (confirm_wager 1000 (Some (goldJson 0))) ''Gen'' exBoard] exInit"

definition exAnonWins :: server where
  "exAnonWins =
     run [Message 1 (player_ready 1000) ''Gen'' exBoard,
          Message 3 (player_ready 1000) ''Gen'' exBoard,
          Fire 0, Advance 1000, Fire 1, Advance 1000, Fire 2, Advance 1000, Fire 3,
          Message 3 (submit_words [''abc'']) ''Gen'' exBoard] exAnonLocked"

text \<open>
  What a change \<open>f\<close> of an inventory does to the result of \<open>getPlayerData\<close>: it changes
  the inventory of an account and nothing else.
\<close>

definition mapAccount :: "(inventory \<Rightarrow> inventory) \<Rightarrow> lookup \<Rightarrow> lookup" where
  "mapAccount f l = (case l of Account iv \<Rightarrow> Account (f iv) | NoAccount \<Rightarrow> NoAccount
     | Inherited \<Rightarrow> Inherited)"

text \<open>The ten counts of a wager, in the order of \<open>ITEM_ORDER\<close>.\<close>

definition countsOf :: "wagerMap option \<Rightarrow> jsnum list option" where
  "countsOf x = map_option (\<lambda>w. map w ITEM_ORDER) x"

section \<open>Facts about the scoring engine\<close>

lemma setAdd_foldl_set: "set (foldl setAdd acc xs) = set acc \<union> set xs"
  by (induction xs arbitrary: acc) (auto simp: setAdd_def)

lemma setAdd_foldl_distinct: "distinct acc \<Longrightarrow> distinct (foldl setAdd acc xs)"
  by (induction xs arbitrary: acc) (auto simp: setAdd_def)

lemma set_newSet: "set (newSet xs) = set xs"
  by (simp add: newSet_def setAdd_foldl_set)

lemma distinct_newSet: "distinct (newSet xs)"
  by (simp add: newSet_def setAdd_foldl_distinct)

lemma set_sharedWordsOf: "set (sharedWordsOf a b) = set a \<inter> set b"
  by (auto simp: sharedWordsOf_def set_newSet)

lemma foldl_points: "foldl (\<lambda>acc sw. acc + points sw) a xs = a + sum_list (map points xs)"
  by (induction xs arbitrary: a) auto

lemma score_calculateResults:
  "score (calculateResults cmp a sh) =
     (\<Sum>w\<leftarrow>a. if w \<in> set sh then 0 else getWordScore (length w))"
  by (simp add: calculateResults_def foldl_points scoreWord_def Let_def comp_def)

lemma getWordScore_table:
  "getWordScore 3 = 1" "getWordScore 4 = 1" "getWordScore 5 = 2" "getWordScore 6 = 3"
  "getWordScore 7 = 5" "getWordScore (8 + n) = 11"
  by (simp_all add: getWordScore_def SCORE_TABLE_def)

text \<open>
  Claim C5. For the two word lists \<open>a\<close> and \<open>b\<close> of a game and the shared words that
  \<open>finishGame\<close> computes from them, the total of each player is the sum, over that
  player's list, of the contribution of each word: \<open>0\<close> for a word that is in both lists,
  and the value of the length table for every other word. The table gives 1, 1, 2, 3 and 5
  points for the lengths 3 to 7, and 11 points for every length of 8 or more.
\<close>

theorem C5_shared_words_cancel:
  "score (calculateResults cmp a (sharedWordsOf a b)) =
     (\<Sum>w\<leftarrow>a. if w \<in> set a \<inter> set b then 0 else getWordScore (length w))
   \<and> score (calculateResults cmp b (sharedWordsOf a b)) =
     (\<Sum>w\<leftarrow>b. if w \<in> set a \<inter> set b then 0 else getWordScore (length w))
   \<and> getWordScore 3 = 1 \<and> getWordScore 4 = 1 \<and> getWordScore 5 = 2
   \<and> getWordScore 6 = 3 \<and> getWordScore 7 = 5 \<and> getWordScore (8 + n) = 11"
  by (simp add: score_calculateResults set_sharedWordsOf getWordScore_table)

theorem C5_shared_words_cancel_witness:
  "score (calculateResults exLocaleCompare [''CAB'', ''ABC''] (sharedWordsOf [''CAB'', ''ABC''] [''CAB''])) = 1
   \<and> score (calculateResults exLocaleCompare [''CAB''] (sharedWordsOf [''CAB'', ''ABC''] [''CAB''])) = 0"
  using C5_shared_words_cancel [where cmp = exLocaleCompare and a = "[''CAB'', ''ABC'']"
      and b = "[''CAB'']" and n = 0]
  by (simp add: getWordScore_def SCORE_TABLE_def)

section \<open>Matchmaking: find_game\<close>

text \<open>
  Claim C8. \<open>find_game\<close> from socket \<open>w\<close>: when \<open>w\<close> waits in either queue, the only
  effect is the error Already searching; otherwise, when the session store maps the
  player's id to a game, the only effect is the error Already in game; otherwise, when the
  queue of the requested mode is \<open>opp # rest\<close>, its head \<open>opp\<close> is taken out and a new game
  pairs the arriver with \<open>opp\<close>; and when that queue is empty, the arriver is appended to
  it and is sent \<open>searching\<close>. The other queue is not touched.
\<close>

theorem C8_find_game:
  fixes s :: server and w wMode genName genBoard opp rest
  defines "s' \<equiv> handleFindGame w wMode genName genBoard s"
  defines "queued \<equiv> w \<in> set (waitingPlayersCasual s) \<or> w \<in> set (waitingPlayersWager s)"
  defines "inSession \<equiv> playerToGame s (playerId (sockets s w)) \<noteq> None"
  shows
  "(queued \<longrightarrow>
      outbox s' = outbox s @ [(w, ErrorMsg ''Already searching'')] \<and> s'\<lparr>outbox := outbox s\<rparr> = s)
   \<and> (\<not> queued \<and> inSession \<longrightarrow>
      outbox s' = outbox s @ [(w, ErrorMsg ''Already in game'')] \<and> s'\<lparr>outbox := outbox s\<rparr> = s)
   \<and> (\<not> queued \<and> \<not> inSession \<and> queueOf wMode s = opp # rest \<longrightarrow>
        queueOf wMode s' = rest \<and> queueOf (\<not> wMode) s' = queueOf (\<not> wMode) s
        \<and> activeGames s' = (activeGames s)(clock s \<mapsto> nextGame s)
        \<and> ws (player0 (games s' (nextGame s))) = w
        \<and> ws (player1 (games s' (nextGame s))) = opp
        \<and> playerToGame s' (playerId (sockets s w)) = Some (clock s)
        \<and> playerToGame s' (playerId (sockets s opp)) = Some (clock s)
        \<and> (opp, GameMatched (clock s) genBoard GAME_TIME wMode
              (nameOf (sockets s' w))) \<in> set (outbox s')
        \<and> (w, GameMatched (clock s) genBoard GAME_TIME wMode
              (nameOf (sockets s opp))) \<in> set (outbox s'))
   \<and> (\<not> queued \<and> \<not> inSession \<and> queueOf wMode s = [] \<longrightarrow>
        queueOf wMode s' = [w] \<and> queueOf (\<not> wMode) s' = queueOf (\<not> wMode) s
        \<and> activeGames s' = activeGames s
        \<and> outbox s' = outbox s @ [(w, Searching)])"
proof -
  have a: "queued \<Longrightarrow> s' = wsSend w (ErrorMsg ''Already searching'') s"
    by (simp add: s'_def queued_def handleFindGame_def)
  have b: "\<not> queued \<Longrightarrow> inSession \<Longrightarrow> s' = wsSend w (ErrorMsg ''Already in game'') s"
    by (simp add: s'_def queued_def inSession_def handleFindGame_def)
  have c: "queueOf wMode s = [] \<Longrightarrow> \<not> queued \<Longrightarrow> \<not> inSession \<Longrightarrow>
       queueOf wMode s' = [w] \<and> queueOf (\<not> wMode) s' = queueOf (\<not> wMode) s
             \<and> activeGames s' = activeGames s
             \<and> outbox s' = outbox s @ [(w, Searching)]"
    by (cases wMode)
      (simp_all add: s'_def queued_def inSession_def handleFindGame_def queueOf_def
        setQueue_def wsSend_def Let_def)
  have d: "queueOf wMode s = opp # rest \<Longrightarrow> \<not> queued \<Longrightarrow> \<not> inSession \<Longrightarrow>
             queueOf wMode s' = rest \<and> queueOf (\<not> wMode) s' = queueOf (\<not> wMode) s
             \<and> activeGames s' = (activeGames s)(clock s \<mapsto> nextGame s)
             \<and> ws (player0 (games s' (nextGame s))) = w
             \<and> ws (player1 (games s' (nextGame s))) = opp
             \<and> playerToGame s' (playerId (sockets s w)) = Some (clock s)
             \<and> playerToGame s' (playerId (sockets s opp)) = Some (clock s)
        \<and> (opp, GameMatched (clock s) genBoard GAME_TIME wMode
              (nameOf (sockets s' w))) \<in> set (outbox s')
        \<and> (w, GameMatched (clock s) genBoard GAME_TIME wMode
              (nameOf (sockets s opp))) \<in> set (outbox s')"
    by (cases wMode)
      (auto simp add: s'_def queued_def inSession_def handleFindGame_def queueOf_def
        setQueue_def wsSend_def Let_def startGame_def startCountdownPhase_def setTimeout_def
        putGame_def newPlayer_def)
  show ?thesis
    using a b c d by (auto simp: wsSend_def)
qed

lemma exQueued_facts:
  "waitingPlayersCasual exQueued = [1]" "waitingPlayersWager exQueued = []"
  "playerToGame exQueued = Map.empty" "clock exQueued = 1000" "nextGame exQueued = 0"
  by (simp_all add: exQueued_def exInit_def handleFindGame_def exSock_def queueOf_def
      setQueue_def wsSend_def Let_def)

theorem C8_find_game_witness:
  "waitingPlayersCasual (handleFindGame 1 False ''Gen'' exBoard exInit) = [1]
   \<and> outbox (handleFindGame 1 False ''Gen'' exBoard exInit) = [(1, Searching)]
   \<and> outbox (handleFindGame 1 True ''Gen'' exBoard exQueued) =
       outbox exQueued @ [(1, ErrorMsg ''Already searching'')]
   \<and> waitingPlayersCasual (handleFindGame 2 False ''Gen'' exBoard exQueued) = []
   \<and> ws (player0 (games (handleFindGame 2 False ''Gen'' exBoard exQueued) 0)) = 2
   \<and> ws (player1 (games (handleFindGame 2 False ''Gen'' exBoard exQueued) 0)) = 1
   \<and> outbox (handleFindGame 2 False ''Gen'' exBoard exCasual) =
       outbox exCasual @ [(2, ErrorMsg ''Already in game'')]"
proof -
  have e: "playerToGame exCasual (playerId (sockets exCasual 2)) \<noteq> None"
    "2 \<notin> set (waitingPlayersCasual exCasual)" "2 \<notin> set (waitingPlayersWager exCasual)"
    by code_simp+
  show ?thesis
    using C8_find_game [of 1 exInit False "''Gen''" exBoard]
      C8_find_game [of 1 exQueued True "''Gen''" exBoard]
      C8_find_game [of 2 exQueued False "''Gen''" exBoard 1 "[]"]
      C8_find_game [of 2 exCasual False "''Gen''" exBoard] e
    by (simp add: exQueued_facts queueOf_def) (simp add: exInit_def)
qed

section \<open>Facts about the numbers\<close>

lemma roundDouble_exact: "\<bar>x\<bar> \<le> 2 ^ 53 \<Longrightarrow> roundDouble x = x"
  by (simp add: roundDouble_def Let_def)

lemma jsOfInt_exact: "\<bar>x\<bar> \<le> 2 ^ 53 \<Longrightarrow> jsOfInt x = Fin x"
proof -
  assume a: "\<bar>x\<bar> \<le> 2 ^ 53"
  have b: "(2::int) ^ 53 < 2 ^ 1024" by (rule power_strict_increasing) simp_all
  from a b have "x < 2 ^ 1024" "- (2 ^ 1024) < x" by linarith+
  then show ?thesis using a by (simp add: jsOfInt_def roundDouble_exact Let_def)
qed

lemma jsAdd_exact: "\<bar>a + b\<bar> \<le> 2 ^ 53 \<Longrightarrow> jsAdd (Fin a) (Fin b) = Fin (a + b)"
  by (simp add: jsOfInt_exact)

lemma jsSub_exact: "\<bar>a - b\<bar> \<le> 2 ^ 53 \<Longrightarrow> jsSub (Fin a) (Fin b) = Fin (a - b)"
  by (simp add: jsSub_def jsOfInt_exact)

text \<open>Beyond \<open>2 ^ 53\<close> a sum is rounded: adding or taking away one unit can change nothing.\<close>

lemma jsAdd_rounds:
  "jsAdd (Fin (2 ^ 53)) (Fin 1) = Fin (2 ^ 53)"
  "jsAdd (Fin (2 ^ 53 + 2)) (Fin 1) = Fin (2 ^ 53 + 4)"
  "jsSub (Fin (2 ^ 60)) (Fin 1) = Fin (2 ^ 60)"
  by code_simp+

section \<open>Facts about inventories, sending and the player slots\<close>

lemma ITEM_ORDER_all: "it \<in> set ITEM_ORDER"
  by (cases it) (simp_all add: ITEM_ORDER_def)

lemma ITEM_ORDER_distinct: "distinct ITEM_ORDER"
  by (simp add: ITEM_ORDER_def)

lemma fold_creditItem:
  "distinct xs \<Longrightarrow>
   fold (creditItem v) xs iv it = (if it \<in> set xs then jsAdd (orZero (iv it)) (v it) else iv it)"
  by (induction xs arbitrary: iv) (auto simp: creditItem_def)

lemma fold_debitItem:
  "distinct xs \<Longrightarrow>
   fold (debitItem w) xs iv it =
     (if it \<in> set xs \<and> gt0 (w it) then max0 (jsSub (orZero (iv it)) (w it)) else iv it)"
  by (induction xs arbitrary: iv) (auto simp: debitItem_def)

lemma credit_apply: "credit v iv it = jsAdd (orZero (iv it)) (v it)"
  by (simp add: credit_def fold_creditItem ITEM_ORDER_distinct ITEM_ORDER_all)

lemma debit_apply:
  "debit w iv it = (if gt0 (w it) then max0 (jsSub (orZero (iv it)) (w it)) else iv it)"
  by (simp add: debit_def fold_debitItem ITEM_ORDER_distinct ITEM_ORDER_all)

lemma credit_eq: "credit v iv = (\<lambda>it. jsAdd (orZero (iv it)) (v it))"
  by (rule ext) (rule credit_apply)

lemma debit_eq:
  "debit w iv = (\<lambda>it. if gt0 (w it) then max0 (jsSub (orZero (iv it)) (w it)) else iv it)"
  by (rule ext) (rule debit_apply)

lemma hasWager_iff: "hasWager pot \<longleftrightarrow> (\<exists>it. gt0 (pot it))"
  by (auto simp: hasWager_def list_ex_iff ITEM_ORDER_all)

text \<open>Integer counts within the exact range are debited and credited exactly.\<close>

lemma credit_counts:
  assumes "\<forall>it. 0 \<le> h it" "\<forall>it. 0 \<le> a it" "\<forall>it. h it + a it \<le> 2 ^ 53"
  shows "credit (counts a) (counts h) = counts (\<lambda>it. h it + a it)"
proof (rule ext)
  fix it
  have "\<bar>h it + a it\<bar> \<le> 2 ^ 53" using assms by (simp add: abs_le_iff)
  then show "credit (counts a) (counts h) it = counts (\<lambda>it. h it + a it) it"
    by (simp add: credit_apply counts_def jsAdd_exact del: jsAdd.simps)
qed

lemma debit_counts:
  assumes "\<forall>it. 0 \<le> c it" "\<forall>it. c it \<le> h it" "\<forall>it. h it \<le> 2 ^ 53"
  shows "debit (counts c) (counts h) = counts (\<lambda>it. h it - c it)"
proof (rule ext)
  fix it
  have "0 \<le> c it" "c it \<le> h it" "h it \<le> 2 ^ 53" using assms by auto
  then have "\<bar>h it - c it\<bar> \<le> 2 ^ 53" by linarith
  then have "jsSub (Fin (h it)) (Fin (c it)) = Fin (h it - c it)" by (rule jsSub_exact)
  then show "debit (counts c) (counts h) it = counts (\<lambda>it. h it - c it) it"
    using \<open>c it \<le> h it\<close> \<open>0 \<le> c it\<close> by (auto simp add: debit_apply counts_def)
qed

lemma orZeroAll_counts: "orZeroAll (counts a) = counts a"
  by (simp add: orZeroAll_def counts_def fun_eq_iff)

lemma sendIfOpen_alt:
  "sendIfOpen p m s =
     s\<lparr>outbox := outbox s @ (if connected p \<and> isOpen (sockets s (ws p)) then [(ws p, m)] else [])\<rparr>"
  by (simp add: sendIfOpen_def wsSend_def)

lemma getPlayer_setPlayer:
  "getPlayer (setPlayer i p g) j = (if (i = 0) = (j = 0) then p else getPlayer g j)"
  by (simp add: getPlayer_def setPlayer_def)

lemma findIndex_le: "findIndex g pid = Some i \<Longrightarrow> i = 0 \<or> i = 1"
  by (auto simp: findIndex_def split: if_splits)

section \<open>Reconnecting inside the grace period\<close>

text \<open>
  The path that claim C7 describes. While the game is paused with a snapshot,
  \<open>handleReconnect\<close> reports the snapshot; and the resume callback, when it finds the
  game paused, sets the end of the round to the snapshot it was created with.
\<close>

lemma reconnect_reports_snapshot:
  assumes "activeGames s gid = Some r" "findIndex (games s r) pid = Some i"
    and "paused (games s r)" "pausedTimeRemaining (games s r) = Some snap"
  shows "List.map_filter (reconnectSuccessOf w) (outbox (handleReconnect w gid pid s))
           = List.map_filter (reconnectSuccessOf w) (outbox s) @ [(snap, True)]"
proof -
  have i01: "i = 0 \<or> i = 1" using assms(2) by (rule findIndex_le)
  have mf: "List.map_filter f (xs @ ys) = List.map_filter f xs @ List.map_filter f ys" for f :: "nat \<times> msg \<Rightarrow> (int \<times> bool) option" and xs ys
    by (simp add: List.map_filter_def)
  show ?thesis
    using assms i01
    by (cases "disconnectedPlayers s pid")
      (auto simp: handleReconnect_def Let_def putGame_def clearTimeout_def wsSend_def
        sendIfOpen_alt getPlayer_def setPlayer_def resumeGame_def broadcastToGame_def
        setTimeout_def mf List.map_filter_simps)
qed

lemma resume_sets_snapshot:
  assumes "paused (games s r)"
  shows "endTime (games (stateOf (runCallback (ResumeDoneCb r (Some snap)) s)) r)
           = Some (clock s + snap * 1000)"
    and "\<not> paused (games (stateOf (runCallback (ResumeDoneCb r (Some snap)) s)) r)"
    and "isDone (runCallback (ResumeDoneCb r (Some snap)) s)"
  using assms
  by (simp_all add: Let_def putGame_def broadcastToGame_def sendIfOpen_alt numOr0_def)

text \<open>
  Claim C7 fails on the code. Alice is connected and the game is active and not paused
  (\<open>exResumed\<close>, at 89000). Her socket closes: the game is paused with the snapshot 99
  (\<open>exThirdDrop\<close>). One second later the resume callback of an earlier reconnect fires,
  finds the game paused and resumes it, with alice still disconnected. She reconnects at
  95000, six seconds after the disconnect and well inside the grace period of 30 seconds:
  the \<open>reconnect_success\<close> sent to her carries \<open>timeRemaining\<close> 95 and \<open>paused\<close> false, not
  the snapshot 99, and the round ends at 190000.
\<close>

theorem C7_stale_resume_callback:
  "status (games exResumed 0) = Active
   \<and> \<not> paused (games exResumed 0)
   \<and> connected (player1 (games exResumed 0))
   \<and> clock exResumed = 89000
   \<and> paused (games exThirdDrop 0)
   \<and> pausedTimeRemaining (games exThirdDrop 0) = Some 99
   \<and> clock exThirdReconnect = 95000
   \<and> List.map_filter (reconnectSuccessOf 5) (outbox exThirdReconnect) = [(95, False)]
   \<and> \<not> paused (games exThirdReconnect 0)
   \<and> endTime (games exThirdReconnect 0) = Some 190000"
  by code_simp

section \<open>Confirming a wager\<close>

lemma debitPlayer_Some:
  "d n \<noteq> Inherited \<Longrightarrow>
   debitPlayer n (Some w) d =
     Done (case d n of Account iv \<Rightarrow> d(n := Account (debit w iv)) | _ \<Rightarrow> d)"
  by (cases "d n") (simp_all add: debitPlayer_def)

text \<open>
  Claim C2, as the code has it. A \<open>confirm_wager\<close> that carries a wager map, in the wager
  phase, from a player of the game whose name does not find an inherited property in the
  place of an account, is not rejected: the handler returns, the player is marked
  confirmed with the map that was sent, the confirmed flag of the opponent is unchanged,
  and no error is sent. In the account of the player's name (when there is one) every item
  kind with a positive count is debited by that count, clamped at zero; no other account
  changes. When the counts are integers between zero and the holdings, and the holdings
  are at most \<open>2 ^ 53\<close>, this debits exactly the wager map.
\<close>

theorem C2_confirm_not_rejected:
  fixes s :: server and w gid wg r i h c
  assumes live: "activeGames s gid = Some r"
    and phase: "status (games s r) = Wager"
    and slot: "findIndex (games s r) (playerId (sockets s w)) = Some i"
    and named: "itemsData s (p_name (getPlayer (games s r) i)) \<noteq> Inherited"
  defines "out \<equiv> handleConfirmWager w gid (Some wg) s"
  defines "s' \<equiv> stateOf out"
  defines "me \<equiv> p_name (getPlayer (games s r) i)"
  shows
    "isDone out
     \<and> wagerConfirmed (getPlayer (games s' r) i)
     \<and> wager (getPlayer (games s' r) i) = Some wg
     \<and> wagerConfirmed (getPlayer (games s' r) (1 - i))
         = wagerConfirmed (getPlayer (games s r) (1 - i))
     \<and> filter isErrorMsg (outbox s') = filter isErrorMsg (outbox s)
     \<and> itemsData s' me =
         (case itemsData s me of
            NoAccount \<Rightarrow> NoAccount
          | Account iv \<Rightarrow>
              Account (\<lambda>it. if gt0 (wg it) then max0 (jsSub (orZero (iv it)) (wg it)) else iv it)
          | Inherited \<Rightarrow> Inherited)
     \<and> (\<forall>n. n \<noteq> me \<longrightarrow> itemsData s' n = itemsData s n)
     \<and> (itemsData s me = Account (counts h) \<and> wg = counts c
            \<and> (\<forall>it. 0 \<le> c it \<and> c it \<le> h it \<and> h it \<le> 2 ^ 53)
          \<longrightarrow> itemsData s' me = Account (counts (\<lambda>it. h it - c it)))"
proof -
  have i01: "i = 0 \<or> i = 1" using slot by (rule findIndex_le)
  define d' where "d' = (case itemsData s me of Account iv \<Rightarrow> (itemsData s)(me := Account (debit wg iv)) | _ \<Rightarrow> itemsData s)"
  have deb: "debitPlayer (p_name (getPlayer (games s r) i)) (Some wg) (itemsData s) = Done d'"
    using named unfolding d'_def me_def by (simp add: debitPlayer_Some)
  have ret: "isDone out"
    using live phase slot deb
    by (simp add: out_def handleConfirmWager_def Let_def putGame_def)
  have flags: "wagerConfirmed (getPlayer (games s' r) i)
     \<and> wager (getPlayer (games s' r) i) = Some wg
     \<and> wagerConfirmed (getPlayer (games s' r) (1 - i))
         = wagerConfirmed (getPlayer (games s r) (1 - i))"
    using live phase slot i01 deb
    by (auto simp: s'_def out_def handleConfirmWager_def Let_def putGame_def sendIfOpen_alt
        getPlayer_def setPlayer_def)
  have errs: "filter isErrorMsg (outbox s') = filter isErrorMsg (outbox s)"
    using live phase slot deb
    by (simp add: s'_def out_def handleConfirmWager_def Let_def putGame_def sendIfOpen_alt)
  have inv: "itemsData s' = d'"
    using live phase slot deb
    by (simp add: s'_def out_def handleConfirmWager_def Let_def putGame_def sendIfOpen_alt)
  have mine: "itemsData s' me =
         (case itemsData s me of
            NoAccount \<Rightarrow> NoAccount
          | Account iv \<Rightarrow>
              Account (\<lambda>it. if gt0 (wg it) then max0 (jsSub (orZero (iv it)) (wg it)) else iv it)
          | Inherited \<Rightarrow> Inherited)"
    by (cases "itemsData s me") (simp_all add: inv d'_def debit_eq)
  have others: "\<forall>n. n \<noteq> me \<longrightarrow> itemsData s' n = itemsData s n"
    by (cases "itemsData s me") (simp_all add: inv d'_def)
  have exact: "itemsData s me = Account (counts h) \<and> wg = counts c
            \<and> (\<forall>it. 0 \<le> c it \<and> c it \<le> h it \<and> h it \<le> 2 ^ 53)
          \<longrightarrow> itemsData s' me = Account (counts (\<lambda>it. h it - c it))"
    by (auto simp: inv d'_def debit_counts)
  show ?thesis using ret flags errs mine others exact by blast
qed

lemma exWager_facts:
  "activeGames exWager 1000 = Some 0" "status (games exWager 0) = Wager"
  "findIndex (games exWager 0) (playerId (sockets exWager 1)) = Some 1"
  "findIndex (games exWager 0) (playerId (sockets exWager 2)) = Some 0"
  "p_name (player1 (games exWager 0)) = ''alice''"
  "p_name (player0 (games exWager 0)) = ''bob''"
  "\<not> wagerConfirmed (player1 (games exWager 0))"
  "\<not> wagerConfirmed (player0 (games exWager 0))"
  "goldOf ''alice'' exWager = Some (Fin 1)"
  "goldOf ''bob'' exWager = Some (Fin 5)"
  "connected (player0 (games exWager 0))" "connected (player1 (games exWager 0))"
  "ws (player0 (games exWager 0)) = 2" "ws (player1 (games exWager 0)) = 1"
  "isOpen (sockets exWager 1)" "isOpen (sockets exWager 2)"
  "\<not> crashed exWager"
  by code_simp+

lemma exWager_accounts: "itemsData exWager = exAccounts"
  by (simp add: exWager_def handleFindGame_def exInit_def exSock_def queueOf_def setQueue_def
      wsSend_def Let_def startGame_def)

theorem C2_confirm_not_rejected_witness:
  "isDone (handleConfirmWager 2 1000 (Some (gold 2)) exWager)
   \<and> wagerConfirmed (player0 (games (stateOf (handleConfirmWager 2 1000 (Some (gold 2)) exWager)) 0))
   \<and> goldOf ''bob'' (stateOf (handleConfirmWager 2 1000 (Some (gold 2)) exWager)) = Some (Fin 3)"
proof -
  have h: "itemsData exWager ''bob'' = Account (counts (goldJson 5))"
    by (simp add: exWager_accounts exAccounts_def gold_def)
  have b: "\<forall>it. 0 \<le> goldJson 2 it \<and> goldJson 2 it \<le> goldJson 5 it \<and> goldJson 5 it \<le> 2 ^ 53"
    by (simp add: goldJson_def)
  show ?thesis
    using C2_confirm_not_rejected [where s = exWager and gid = 1000 and r = 0 and w = 2
        and i = 0 and wg = "gold 2" and h = "goldJson 5" and c = "goldJson 2"] h b
    by (simp add: exWager_facts getPlayer_def gold_def goldOf_def)
      (simp add: goldJson_def counts_def jsSub_exact)
qed

text \<open>
  The claim as stated fails: alice holds one gold coin and confirms a wager of two. The
  server sends no error (the only message goes to the opponent), marks her confirmed and
  takes her holdings down to zero.
\<close>

theorem C2_counterexample:
  "goldOf ''alice'' exWager = Some (Fin 1)
   \<and> gold 2 gold_coin = Fin 2
   \<and> \<not> wagerConfirmed (player1 (games exWager 0))
   \<and> isDone (handleConfirmWager 1 1000 (Some (gold 2)) exWager)
   \<and> wagerConfirmed (player1 (games exConfirmed 0))
   \<and> goldOf ''alice'' exConfirmed = Some (Fin 0)
   \<and> outbox exConfirmed = outbox exWager @ [(2, OpponentWagerConfirmed)]"
proof -
  have n: "itemsData exWager ''alice'' \<noteq> Inherited"
    by (simp add: exWager_accounts exAccounts_def)
  have a: "outbox exConfirmed = outbox exWager @ [(2, OpponentWagerConfirmed)]"
    unfolding exConfirmed_def using n
    by (simp add: handleConfirmWager_def exWager_facts Let_def putGame_def debitPlayer_Some
        sendIfOpen_alt getPlayer_def setPlayer_def del: One_nat_def)
  have b: "goldOf ''alice'' exWager = Some (Fin 1)"
    "gold 2 gold_coin = Fin 2"
    "\<not> wagerConfirmed (player1 (games exWager 0))"
    "isDone (handleConfirmWager 1 1000 (Some (gold 2)) exWager)"
    "wagerConfirmed (player1 (games exConfirmed 0))"
    "goldOf ''alice'' exConfirmed = Some (Fin 0)"
    by code_simp+
  show ?thesis using a b by simp
qed

section \<open>Facts about finishGame\<close>

lemma scoring_status [simp]:
  "wordsOfPlayer (g\<lparr>status := x\<rparr>) i = wordsOfPlayer g i"
  "sharedOf (g\<lparr>status := x\<rparr>) = sharedOf g"
  "resultsOf cmp (g\<lparr>status := x\<rparr>) i = resultsOf cmp g i"
  "winnerIndexOf cmp (g\<lparr>status := x\<rparr>) = winnerIndexOf cmp g"
  "potOf (g\<lparr>status := x\<rparr>) = potOf g"
  "wagerResultOf cmp (g\<lparr>status := x\<rparr>) pot = wagerResultOf cmp g pot"
  "gameEndMsg cmp (g\<lparr>status := x\<rparr>) pot i = gameEndMsg cmp g pot i"
  "settleWager cmp (g\<lparr>status := x\<rparr>) pot d = settleWager cmp g pot d"
  by (simp_all add: wordsOfPlayer_def sharedOf_def resultsOf_def winnerIndexOf_def potOf_def
      wagerResultOf_def gameEndMsg_def getPlayer_def settleWager_def returnWager_def
      split: option.splits)

lemma mapAccount_simps [simp]:
  "mapAccount f NoAccount = NoAccount"
  "mapAccount f (Account iv) = Account (f iv)"
  "mapAccount f Inherited = Inherited"
  by (simp_all add: mapAccount_def)

lemma mapAccount_Inherited [simp]: "mapAccount f l = Inherited \<longleftrightarrow> l = Inherited"
  by (cases l) simp_all

lemma creditPlayer_Done:
  "d n \<noteq> Inherited \<Longrightarrow> creditPlayer n v d = Done (d(n := mapAccount (credit v) (d n)))"
  by (cases "d n") (auto simp: creditPlayer_def fun_eq_iff)

lemma returnWager_Done:
  "d (p_name p) \<noteq> Inherited \<Longrightarrow> wager p = Some w \<Longrightarrow>
   returnWager p d = Done (d(p_name p := mapAccount (credit (orZeroAll w)) (d (p_name p))))"
  by (cases "d (p_name p)") (auto simp: returnWager_def fun_eq_iff)

text \<open>
  What \<open>finishGame\<close> does to a game that is in the store and not finished, when the pot
  can be read and the settlement returns.
\<close>

lemma finishGame_live:
  assumes "activeGames s gid = Some r" "status (games s r) \<noteq> Finished"
    and "potOf (games s r) = Some pot"
    and "settleWager (localeCompare s) (games s r) pot (itemsData s) = Done d"
  defines "g \<equiv> games s r"
  defines "cmp \<equiv> localeCompare s"
  shows "finishGame gid s =
     Done (s\<lparr>games := (games s)(r := g\<lparr>status := Finished\<rparr>),
       itemsData := d,
       outbox := outbox s
         @ (if connected (player0 g) \<and> isOpen (sockets s (ws (player0 g)))
            then [(ws (player0 g), gameEndMsg cmp g pot 0)] else [])
         @ (if connected (player1 g) \<and> isOpen (sockets s (ws (player1 g)))
            then [(ws (player1 g), gameEndMsg cmp g pot 1)] else []),
       playerToGame := (playerToGame s)(p_id (player0 g) := None, p_id (player1 g) := None),
       disconnectedPlayers :=
         (disconnectedPlayers s)(p_id (player0 g) := None, p_id (player1 g) := None),
       activeGames := (activeGames s)(gid := None)\<rparr>)"
  using assms(1-4) unfolding g_def cmp_def
  by (simp add: finishGame_def Let_def cleanupGame_def sendIfOpen_alt putGame_def)

lemma finishGame_gone: "activeGames s gid = None \<Longrightarrow> finishGame gid s = Done s"
  by (simp add: finishGame_def)

text \<open>
  Whatever happens in it, \<open>finishGame\<close> on a game of the store marks the game finished
  and changes no other field of a game object.
\<close>

lemma finishGame_marks:
  assumes "activeGames s gid = Some r"
  shows "games (stateOf (finishGame gid s)) = (games s)(r := (games s r)\<lparr>status := Finished\<rparr>)"
proof (cases "status (games s r) = Finished")
  case True
  then have "(games s r)\<lparr>status := Finished\<rparr> = games s r" by simp
  then show ?thesis using assms True by (auto simp: finishGame_def fun_eq_iff)
next
  case False
  then show ?thesis using assms
    by (auto simp: finishGame_def Let_def cleanupGame_def sendIfOpen_alt putGame_def
        split: option.splits outcome.splits)
qed

section \<open>Settlement of the wagers at the end of a game\<close>

text \<open>
  Claim C3, as the code has it. Take a game of the store that is not finished, whose two
  wagers are maps of integer counts that are not negative, not all zero, and whose sums
  are at most \<open>2 ^ 53\<close>, and whose two player names do not find an inherited property in
  the place of an account. \<open>finishGame\<close> returns. The pot is the sum of the two wager
  maps, item kind by item kind. When the total of one player is strictly greater, the
  account of that player's name, if there is one, is credited the whole pot, and no other
  account changes; when the totals are equal there is no winner and the account of each
  player's name, if there is one, is credited that player's own wager map, and no other
  account changes. A name without an account is credited nothing. The branch is chosen by
  the comparison of the two totals, so the two settlements never both take place; the
  wager result that is reported names the same winner and the same pot. The game is
  marked finished and removed from the store. A credit adds count to count, and is exact
  on integer holdings \<open>h\<close> as long as the sums stay at most \<open>2 ^ 53\<close>.
\<close>

theorem C3_settlement:
  fixes s :: server and gid r it0 a b h
  defines "g \<equiv> games s r"
  defines "out \<equiv> finishGame gid s"
  defines "s' \<equiv> stateOf (finishGame gid s)"
  defines "sc0 \<equiv> score (resultsOf (localeCompare s) (games s r) 0)"
  defines "sc1 \<equiv> score (resultsOf (localeCompare s) (games s r) 1)"
  defines "n0 \<equiv> p_name (player0 (games s r))"
  defines "n1 \<equiv> p_name (player1 (games s r))"
  defines "pot \<equiv> counts (\<lambda>it. a it + b it)"
  assumes live: "activeGames s gid = Some r"
    and unfinished: "status (games s r) \<noteq> Finished"
    and w0: "wager (player0 (games s r)) = Some (counts a)"
    and w1: "wager (player1 (games s r)) = Some (counts b)"
    and nonneg: "\<And>it. 0 \<le> a it \<and> 0 \<le> b it"
    and nonzero: "a it0 \<noteq> 0 \<or> b it0 \<noteq> 0"
    and range: "\<And>it. a it + b it \<le> 2 ^ 53"
    and named0: "itemsData s (p_name (player0 (games s r))) \<noteq> Inherited"
    and named1: "itemsData s (p_name (player1 (games s r))) \<noteq> Inherited"
  shows
    "isDone out
     \<and> potOf g = Some pot
     \<and> (sc0 > sc1 \<longrightarrow>
          itemsData s' = (itemsData s)(n0 := mapAccount (credit pot) (itemsData s n0)))
     \<and> (sc1 > sc0 \<longrightarrow>
          itemsData s' = (itemsData s)(n1 := mapAccount (credit pot) (itemsData s n1)))
     \<and> (sc0 = sc1 \<longrightarrow>
          itemsData s' =
            (let d = (itemsData s)(n0 := mapAccount (credit (counts a)) (itemsData s n0))
             in d(n1 := mapAccount (credit (counts b)) (d n1))))
     \<and> wagerResultOf (localeCompare s) g pot =
          Some \<lparr>wr_winner = (if sc0 > sc1 then Some n0
                              else if sc1 > sc0 then Some n1 else None),
                wr_pot = pot, wr_returned = (sc0 = sc1)\<rparr>
     \<and> activeGames s' gid = None
     \<and> status (games s' r) = Finished
     \<and> (\<forall>iv it. credit pot iv it = jsAdd (orZero (iv it)) (Fin (a it + b it))
                \<and> credit (counts a) iv it = jsAdd (orZero (iv it)) (Fin (a it))
                \<and> credit (counts b) iv it = jsAdd (orZero (iv it)) (Fin (b it)))
     \<and> ((\<forall>it. 0 \<le> h it \<and> h it + a it + b it \<le> 2 ^ 53) \<longrightarrow>
           credit pot (counts h) = counts (\<lambda>it. h it + (a it + b it))
           \<and> credit (counts a) (counts h) = counts (\<lambda>it. h it + a it)
           \<and> credit (counts b) (counts h) = counts (\<lambda>it. h it + b it)
           \<and> credit (counts b) (credit (counts a) (counts h)) = counts (\<lambda>it. h it + a it + b it))"
proof -
  let ?cmp = "localeCompare s"
  have potv: "potOf g = Some pot"
  proof -
    have "jsAdd (Fin (a it)) (Fin (b it)) = Fin (a it + b it)" for it
      using nonneg [of it] range [of it] by (intro jsAdd_exact) simp
    then show ?thesis
      using w0 w1 by (simp add: potOf_def g_def pot_def counts_def del: jsAdd.simps)
  qed
  have "0 < a it0 + b it0"
    using nonneg [of it0] nonzero by auto
  then have hw: "hasWager pot" by (auto simp: hasWager_iff pot_def counts_def)
  have w0c: "sc0 > sc1 \<Longrightarrow> winnerIndexOf ?cmp g = Some 0"
    and w1c: "sc1 > sc0 \<Longrightarrow> winnerIndexOf ?cmp g = Some 1"
    and tie: "sc0 = sc1 \<Longrightarrow> winnerIndexOf ?cmp g = None"
    by (auto simp: winnerIndexOf_def sc0_def sc1_def g_def)
  define d' where "d' =
     (if sc0 > sc1 then (itemsData s)(n0 := mapAccount (credit pot) (itemsData s n0))
      else if sc1 > sc0 then (itemsData s)(n1 := mapAccount (credit pot) (itemsData s n1))
      else (let d = (itemsData s)(n0 := mapAccount (credit (counts a)) (itemsData s n0))
            in d(n1 := mapAccount (credit (counts b)) (d n1))))"
  have r0: "returnWager (player0 g) (itemsData s) =
      Done ((itemsData s)(n0 := mapAccount (credit (counts a)) (itemsData s n0)))"
    using returnWager_Done [of "itemsData s" "player0 g" "counts a"] named0 w0
    by (simp add: g_def n0_def orZeroAll_counts)
  have r1: "returnWager (player1 g) d =
      Done (d(n1 := mapAccount (credit (counts b)) (d n1)))"
    if dd: "d = (itemsData s)(n0 := mapAccount (credit (counts a)) (itemsData s n0))" for d
  proof -
    have "d (p_name (player1 g)) \<noteq> Inherited"
      using named0 named1 by (simp add: dd g_def n0_def)
    moreover have "wager (player1 g) = Some (counts b)" using w1 by (simp add: g_def)
    ultimately have "returnWager (player1 g) d =
        Done (d(p_name (player1 g) := mapAccount (credit (orZeroAll (counts b))) (d (p_name (player1 g)))))"
      by (rule returnWager_Done)
    then show ?thesis by (simp add: orZeroAll_counts n1_def g_def)
  qed
  have settle: "settleWager ?cmp g pot (itemsData s) = Done d'"
  proof -
    consider "sc0 > sc1" | "sc1 > sc0" | "sc0 = sc1" by linarith
    then show ?thesis
    proof cases
      case 1
      then show ?thesis
        using hw w0c named0
        by (simp add: settleWager_def d'_def creditPlayer_Done getPlayer_def g_def n0_def)
    next
      case 2
      then show ?thesis
        using hw w1c named1
        by (simp add: settleWager_def d'_def creditPlayer_Done getPlayer_def g_def n1_def)
    next
      case 3
      then show ?thesis
        using hw tie r0 r1 by (simp add: settleWager_def d'_def Let_def)
    qed
  qed
  have fin: "isDone out" "itemsData s' = d'" "activeGames s' gid = None"
    "status (games s' r) = Finished"
    using finishGame_live [OF live unfinished potv [unfolded g_def] settle [unfolded g_def]]
    by (simp_all add: s'_def out_def)
  have wr: "wagerResultOf ?cmp g pot =
          Some \<lparr>wr_winner = (if sc0 > sc1 then Some n0
                              else if sc1 > sc0 then Some n1 else None),
                wr_pot = pot, wr_returned = (sc0 = sc1)\<rparr>"
    using hw
    by (auto simp: wagerResultOf_def winnerIndexOf_def sc0_def sc1_def g_def getPlayer_def
        n0_def n1_def)
  have items: "(sc0 > sc1 \<longrightarrow>
          itemsData s' = (itemsData s)(n0 := mapAccount (credit pot) (itemsData s n0)))
     \<and> (sc1 > sc0 \<longrightarrow>
          itemsData s' = (itemsData s)(n1 := mapAccount (credit pot) (itemsData s n1)))
     \<and> (sc0 = sc1 \<longrightarrow>
          itemsData s' =
            (let d = (itemsData s)(n0 := mapAccount (credit (counts a)) (itemsData s n0))
             in d(n1 := mapAccount (credit (counts b)) (d n1))))"
    by (simp add: fin(2) d'_def)
  have gen: "\<forall>iv it. credit pot iv it = jsAdd (orZero (iv it)) (Fin (a it + b it))
                \<and> credit (counts a) iv it = jsAdd (orZero (iv it)) (Fin (a it))
                \<and> credit (counts b) iv it = jsAdd (orZero (iv it)) (Fin (b it))"
    by (simp add: credit_apply pot_def counts_def)
  have exact: "credit pot (counts h) = counts (\<lambda>it. h it + (a it + b it))
           \<and> credit (counts a) (counts h) = counts (\<lambda>it. h it + a it)
           \<and> credit (counts b) (counts h) = counts (\<lambda>it. h it + b it)
           \<and> credit (counts b) (credit (counts a) (counts h)) = counts (\<lambda>it. h it + a it + b it)"
    if hh: "\<forall>it. 0 \<le> h it \<and> h it + a it + b it \<le> 2 ^ 53"
  proof -
    have nn: "\<forall>it. 0 \<le> a it" "\<forall>it. 0 \<le> b it" "\<forall>it. 0 \<le> a it + b it"
      using nonneg by (auto intro: add_nonneg_nonneg)
    have hn: "\<forall>it. 0 \<le> h it" using hh by simp
    have b1: "\<forall>it. h it + (a it + b it) \<le> 2 ^ 53" using hh by (simp add: add.assoc)
    have b2: "\<forall>it. h it + a it \<le> 2 ^ 53"
    proof
      fix it
      have "h it + a it + b it \<le> 2 ^ 53" "0 \<le> b it" using hh nonneg by auto
      then show "h it + a it \<le> 2 ^ 53" by linarith
    qed
    have b3: "\<forall>it. h it + b it \<le> 2 ^ 53"
    proof
      fix it
      have "h it + a it + b it \<le> 2 ^ 53" "0 \<le> a it" using hh nonneg by auto
      then show "h it + b it \<le> 2 ^ 53" by linarith
    qed
    have hn2: "\<forall>it. 0 \<le> h it + a it" using hn nn(1) by (auto intro: add_nonneg_nonneg)
    have b4: "\<forall>it. h it + a it + b it \<le> 2 ^ 53" using hh by simp
    have c1: "credit pot (counts h) = counts (\<lambda>it. h it + (a it + b it))"
      unfolding pot_def by (rule credit_counts [OF hn nn(3) b1])
    have c2: "credit (counts a) (counts h) = counts (\<lambda>it. h it + a it)"
      by (rule credit_counts [OF hn nn(1) b2])
    have c3: "credit (counts b) (counts h) = counts (\<lambda>it. h it + b it)"
      by (rule credit_counts [OF hn nn(2) b3])
    have c4: "credit (counts b) (counts (\<lambda>it. h it + a it)) = counts (\<lambda>it. h it + a it + b it)"
      by (rule credit_counts [OF hn2 nn(2) b4])
    show ?thesis using c1 c2 c3 c4 by simp
  qed
  show ?thesis
    using fin(1) potv items wr fin(3,4) gen exact by blast
qed

end
